theory Spec2Isabelle
  imports Complex_Main "HOL-Library.Sublist"
begin

section \<open>Data model\<close>

text \<open>
  The three backtests of the repository (\<^verbatim>\<open>dollar_cost_averaging.py\<close>,
  \<^verbatim>\<open>ath_dip_strategy.py\<close>, \<^verbatim>\<open>moving_average_strategy.py\<close>) are embedded as
  functions over lists of daily bars. Python floats are read as exact real numbers (the
  dip strategy is given a second time with every arithmetic result rounded to the
  nearest double, for the property that depends on rounding); the
  exceptions Python raises (\<^verbatim>\<open>ZeroDivisionError\<close> on a division by zero,
  \<^verbatim>\<open>IndexError\<close> on \<^verbatim>\<open>data[-1]\<close> of an empty list) are values of a sum type.
\<close>

datatype error = ZeroDivisionError | IndexError

type_synonym datetime = int

text \<open>One row of the list built by \<^verbatim>\<open>load_bitcoin_data\<close>.\<close>

record bar =
  date :: datetime
  open_price :: real
  high :: real
  low :: real
  close :: real
  volume :: real

text \<open>Python's \<^verbatim>\<open>a / b\<close> on numbers: raises on a zero divisor.\<close>

definition truediv :: "real \<Rightarrow> real \<Rightarrow> error + real" where
  "truediv a b = (if b = 0 then Inl ZeroDivisionError else Inr (a / b))"

fun bindE :: "error + 'a \<Rightarrow> ('a \<Rightarrow> error + 'b) \<Rightarrow> error + 'b" where
  "bindE (Inl e) f = Inl e"
| "bindE (Inr x) f = f x"

text \<open>A \<^verbatim>\<open>for x in xs:\<close> loop whose body updates the local state or raises.\<close>

fun for_each :: "('s \<Rightarrow> 'a \<Rightarrow> error + 's) \<Rightarrow> 'a list \<Rightarrow> 's \<Rightarrow> error + 's" where
  "for_each body [] s = Inr s"
| "for_each body (x # xs) s = bindE (body s x) (for_each body xs)"

text \<open>\<^verbatim>\<open>data[-1]\<close>: the last element, \<^verbatim>\<open>IndexError\<close> on the empty list.\<close>

definition last_item :: "'a list \<Rightarrow> error + 'a" where
  "last_item data = (if data = [] then Inl IndexError else Inr (last data))"


section \<open>Dollar cost averaging\<close>

record dca_purchase =
  dp_date :: datetime
  dp_price :: real
  dp_amount_invested :: real
  dp_bitcoin_purchased :: real
  dp_total_bitcoin :: real
  dp_total_invested :: real

text \<open>The local variables of \<^verbatim>\<open>backtest_dca_strategy\<close>.\<close>

record dca_state =
  ds_total_invested :: real
  ds_total_bitcoin :: real
  ds_purchases :: "dca_purchase list"
  ds_portfolio_values :: "real list"

record dca_result =
  dr_total_invested :: real
  dr_final_value :: real
  dr_total_return :: real
  dr_return_percentage :: real
  dr_total_bitcoin :: real
  dr_average_purchase_price :: real
  dr_final_bitcoin_price :: real
  dr_daily_investment :: real
  dr_number_of_days :: nat
  dr_purchases :: "dca_purchase list"
  dr_portfolio_values :: "real list"

definition dca_init :: dca_state where
  "dca_init = \<lparr>ds_total_invested = 0, ds_total_bitcoin = 0, ds_purchases = [],
     ds_portfolio_values = []\<rparr>"

text \<open>The loop body, lines 21 to 42 of \<^verbatim>\<open>dollar_cost_averaging.py\<close>.\<close>

definition dca_step :: "real \<Rightarrow> dca_state \<Rightarrow> bar \<Rightarrow> error + dca_state" where
  "dca_step daily_investment s day_data =
     (let current_price = close day_data in
      bindE (truediv daily_investment current_price) (\<lambda>bitcoin_purchased.
        let total_bitcoin = ds_total_bitcoin s + bitcoin_purchased;
            total_invested = ds_total_invested s + daily_investment;
            purchases = ds_purchases s @
              [\<lparr>dp_date = date day_data, dp_price = current_price,
                dp_amount_invested = daily_investment,
                dp_bitcoin_purchased = bitcoin_purchased,
                dp_total_bitcoin = total_bitcoin,
                dp_total_invested = total_invested\<rparr>];
            portfolio_value = total_bitcoin * current_price
        in Inr \<lparr>ds_total_invested = total_invested, ds_total_bitcoin = total_bitcoin,
                ds_purchases = purchases,
                ds_portfolio_values = ds_portfolio_values s @ [portfolio_value]\<rparr>))"

text \<open>\<^verbatim>\<open>(total_return / total_invested) * 100 if total_invested > 0 else 0\<close>\<close>

definition return_percentage_of :: "real \<Rightarrow> real \<Rightarrow> error + real" where
  "return_percentage_of total_return total_invested =
     (if total_invested > 0
      then bindE (truediv total_return total_invested) (\<lambda>q. Inr (q * 100))
      else Inr 0)"

text \<open>\<^verbatim>\<open>total_invested / total_bitcoin if total_bitcoin > 0 else 0\<close>\<close>

definition avg_purchase_price_of :: "real \<Rightarrow> real \<Rightarrow> error + real" where
  "avg_purchase_price_of total_invested total_bitcoin =
     (if total_bitcoin > 0 then truediv total_invested total_bitcoin else Inr 0)"

definition backtest_dca_strategy :: "bar list \<Rightarrow> real \<Rightarrow> error + dca_result" where
  "backtest_dca_strategy data daily_investment =
     bindE (for_each (dca_step daily_investment) data dca_init) (\<lambda>s.
     bindE (last_item data) (\<lambda>final_bar.
       let final_price = close final_bar;
           total_bitcoin = ds_total_bitcoin s;
           total_invested = ds_total_invested s;
           final_value = total_bitcoin * final_price;
           total_return = final_value - total_invested
       in bindE (return_percentage_of total_return total_invested) (\<lambda>return_percentage.
          bindE (avg_purchase_price_of total_invested total_bitcoin) (\<lambda>avg_purchase_price.
            Inr \<lparr>dr_total_invested = total_invested,
                 dr_final_value = final_value,
                 dr_total_return = total_return,
                 dr_return_percentage = return_percentage,
                 dr_total_bitcoin = total_bitcoin,
                 dr_average_purchase_price = avg_purchase_price,
                 dr_final_bitcoin_price = final_price,
                 dr_daily_investment = daily_investment,
                 dr_number_of_days = length data,
                 dr_purchases = ds_purchases s,
                 dr_portfolio_values = ds_portfolio_values s\<rparr>))))"


section \<open>Buying the dip below the all-time high\<close>

record ath_purchase =
  ap_date :: datetime
  ap_price :: real
  ap_amount_invested :: real
  ap_bitcoin_purchased :: real
  ap_all_time_high :: real
  ap_dip_percentage :: real
  ap_total_bitcoin :: real
  ap_total_invested :: real
  ap_purchase_number :: nat

record ath_snapshot =
  av_date :: datetime
  av_price :: real
  av_ath :: real
  av_portfolio_value :: real
  av_total_invested :: real
  av_accumulated_cash :: real
  av_unrealized_return :: real

text \<open>The local variables of \<^verbatim>\<open>backtest_ath_dip_strategy\<close>.\<close>

record ath_state =
  as_all_time_high :: real
  as_accumulated_cash :: real
  as_total_invested :: real
  as_total_bitcoin :: real
  as_purchases :: "ath_purchase list"
  as_portfolio_values :: "ath_snapshot list"
  as_purchase_count :: nat

record ath_result =
  ar_dip_percentage :: real
  ar_daily_budget :: real
  ar_total_invested :: real
  ar_final_value :: real
  ar_total_return :: real
  ar_return_percentage :: real
  ar_total_bitcoin :: real
  ar_average_purchase_price :: real
  ar_final_bitcoin_price :: real
  ar_final_ath :: real
  ar_accumulated_cash :: real
  ar_number_of_purchases :: nat
  ar_number_of_days :: nat
  ar_purchases :: "ath_purchase list"
  ar_portfolio_values :: "ath_snapshot list"

definition ath_init :: ath_state where
  "ath_init = \<lparr>as_all_time_high = 0, as_accumulated_cash = 0, as_total_invested = 0,
     as_total_bitcoin = 0, as_purchases = [], as_portfolio_values = [],
     as_purchase_count = 0\<rparr>"

text \<open>Lines 75 to 89: the snapshot appended at the end of every iteration.\<close>

definition ath_record_value :: "bar \<Rightarrow> ath_state \<Rightarrow> ath_state" where
  "ath_record_value day_data s =
     (let current_price = close day_data;
          portfolio_value = as_accumulated_cash s + as_total_bitcoin s * current_price
      in s\<lparr>as_portfolio_values := as_portfolio_values s @
            [\<lparr>av_date = date day_data, av_price = current_price,
              av_ath = as_all_time_high s,
              av_portfolio_value = portfolio_value,
              av_total_invested = as_total_invested s,
              av_accumulated_cash = as_accumulated_cash s,
              av_unrealized_return =
                (if as_total_invested s > 0
                 then portfolio_value - as_total_invested s - as_accumulated_cash s
                 else 0)\<rparr>]\<rparr>)"

text \<open>
  The loop body, lines 33 to 89 of \<^verbatim>\<open>ath_dip_strategy.py\<close>, in exact arithmetic:
  the threshold and the recorded dip percentage are the exact values of the expressions.
  The same body with rounded arithmetic is \<open>ath_step_rounded\<close> below.
\<close>

definition ath_step :: "real \<Rightarrow> real \<Rightarrow> ath_state \<Rightarrow> bar \<Rightarrow> error + ath_state" where
  "ath_step dip_percentage daily_budget s day_data =
     (let current_price = close day_data;
          current_high = high day_data;
          accumulated_cash = as_accumulated_cash s + daily_budget;
          all_time_high = max (as_all_time_high s) current_high;
          dip_threshold = all_time_high * (1 - dip_percentage / 100);
          buy_signal = (current_price \<le> dip_threshold \<and> accumulated_cash > 0)
      in if buy_signal \<and> all_time_high > 0 then
           bindE (truediv accumulated_cash current_price) (\<lambda>bitcoin_purchased.
             let total_bitcoin = as_total_bitcoin s + bitcoin_purchased;
                 total_invested = as_total_invested s + accumulated_cash;
                 purchase_count = as_purchase_count s + 1
             in bindE (truediv (all_time_high - current_price) all_time_high) (\<lambda>q.
                  let dip_from_ath = q * 100;
                      purchases = as_purchases s @
                        [\<lparr>ap_date = date day_data, ap_price = current_price,
                          ap_amount_invested = accumulated_cash,
                          ap_bitcoin_purchased = bitcoin_purchased,
                          ap_all_time_high = all_time_high,
                          ap_dip_percentage = dip_from_ath,
                          ap_total_bitcoin = total_bitcoin,
                          ap_total_invested = total_invested,
                          ap_purchase_number = purchase_count\<rparr>]
                  in Inr (ath_record_value day_data
                       (s\<lparr>as_all_time_high := all_time_high,
                          as_accumulated_cash := 0,
                          as_total_invested := total_invested,
                          as_total_bitcoin := total_bitcoin,
                          as_purchases := purchases,
                          as_purchase_count := purchase_count\<rparr>))))
         else Inr (ath_record_value day_data
                (s\<lparr>as_all_time_high := all_time_high,
                   as_accumulated_cash := accumulated_cash\<rparr>)))"

definition backtest_ath_dip_strategy :: "bar list \<Rightarrow> real \<Rightarrow> real \<Rightarrow> error + ath_result" where
  "backtest_ath_dip_strategy data dip_percentage daily_budget =
     bindE (for_each (ath_step dip_percentage daily_budget) data ath_init) (\<lambda>s.
     bindE (last_item data) (\<lambda>final_bar.
       let final_price = close final_bar;
           accumulated_cash = as_accumulated_cash s;
           total_bitcoin = as_total_bitcoin s;
           total_invested = as_total_invested s;
           final_value = accumulated_cash + total_bitcoin * final_price;
           total_return = final_value - total_invested - accumulated_cash
       in bindE (return_percentage_of total_return total_invested) (\<lambda>return_percentage.
          bindE (avg_purchase_price_of total_invested total_bitcoin) (\<lambda>avg_purchase_price.
            Inr \<lparr>ar_dip_percentage = dip_percentage,
                 ar_daily_budget = daily_budget,
                 ar_total_invested = total_invested,
                 ar_final_value = final_value,
                 ar_total_return = total_return,
                 ar_return_percentage = return_percentage,
                 ar_total_bitcoin = total_bitcoin,
                 ar_average_purchase_price = avg_purchase_price,
                 ar_final_bitcoin_price = final_price,
                 ar_final_ath = as_all_time_high s,
                 ar_accumulated_cash = accumulated_cash,
                 ar_number_of_purchases = length (as_purchases s),
                 ar_number_of_days = length data,
                 ar_purchases = as_purchases s,
                 ar_portfolio_values = as_portfolio_values s\<rparr>))))"


section \<open>Buying below the moving average\<close>

text \<open>
  \<^verbatim>\<open>sum(data[j]["close"] for j in range(i - window + 1, i + 1))\<close>. The call is
  made only when \<open>window - 1 \<le> i\<close>, so no index is negative, and \<open>i\<close> ranges over
  \<^verbatim>\<open>range(len(data))\<close>, so every index is in range.
\<close>

definition window_sum :: "bar list \<Rightarrow> int \<Rightarrow> nat \<Rightarrow> real" where
  "window_sum data window i =
     sum_list (map (\<lambda>j. close (data ! nat j)) [int i - window + 1 .. int i])"

text \<open>The loop body of \<^verbatim>\<open>calculate_moving_average\<close>, lines 14 to 20.\<close>

definition calculate_moving_average_step ::
    "bar list \<Rightarrow> int \<Rightarrow> real option list \<Rightarrow> nat \<Rightarrow> error + real option list" where
  "calculate_moving_average_step data window moving_averages i =
     (if int i < window - 1 then Inr (moving_averages @ [None])
      else bindE (truediv (window_sum data window i) (real_of_int window))
             (\<lambda>avg. Inr (moving_averages @ [Some avg])))"

definition calculate_moving_average :: "bar list \<Rightarrow> int \<Rightarrow> error + real option list" where
  "calculate_moving_average data window =
     for_each (calculate_moving_average_step data window) [0..<length data] []"

record ma_trade =
  mt_date :: datetime
  mt_action :: string
  mt_price :: real
  mt_amount :: real
  mt_cash_used :: real

text \<open>The local variables of \<^verbatim>\<open>backtest_moving_average_strategy\<close>.\<close>

record ma_state =
  ms_accumulated_cash :: real
  ms_bitcoin_held :: real
  ms_trades :: "ma_trade list"
  ms_portfolio_values :: "real list"
  ms_total_invested :: real

record ma_result =
  mr_total_invested :: real
  mr_final_value :: real
  mr_total_return :: real
  mr_return_percentage :: real
  mr_trades :: "ma_trade list"
  mr_portfolio_values :: "real list"
  mr_moving_average_window :: int
  mr_bitcoin_held :: real
  mr_accumulated_cash :: real
  mr_daily_budget :: real
  mr_number_of_days :: nat

definition ma_init :: ma_state where
  "ma_init = \<lparr>ms_accumulated_cash = 0, ms_bitcoin_held = 0, ms_trades = [],
     ms_portfolio_values = [], ms_total_invested = 0\<rparr>"

text \<open>
  The loop body, lines 39 to 71 of \<^verbatim>\<open>moving_average_strategy.py\<close>, on one pair of
  \<^verbatim>\<open>enumerate(data)\<close>; \<^verbatim>\<open>moving_averages[i]\<close> raises out of range.
\<close>

definition ma_step ::
    "real \<Rightarrow> real option list \<Rightarrow> ma_state \<Rightarrow> nat \<times> bar \<Rightarrow> error + ma_state" where
  "ma_step daily_budget moving_averages s idx_day =
     (let i = fst idx_day;
          day_data = snd idx_day;
          current_price = close day_data
      in if \<not> i < length moving_averages then Inl IndexError
         else
           let ma = moving_averages ! i;
               accumulated_cash = ms_accumulated_cash s + daily_budget
           in case ma of
                None \<Rightarrow>
                  Inr (s\<lparr>ms_accumulated_cash := accumulated_cash,
                         ms_portfolio_values := ms_portfolio_values s @
                           [accumulated_cash + ms_bitcoin_held s * current_price]\<rparr>)
              | Some avg \<Rightarrow>
                  if current_price < avg \<and> accumulated_cash > 0 then
                    bindE (truediv accumulated_cash current_price) (\<lambda>bitcoin_bought.
                      let bitcoin_held = ms_bitcoin_held s + bitcoin_bought;
                          total_invested = ms_total_invested s + accumulated_cash;
                          trades = ms_trades s @
                            [\<lparr>mt_date = date day_data, mt_action = ''BUY'',
                              mt_price = current_price, mt_amount = bitcoin_bought,
                              mt_cash_used = accumulated_cash\<rparr>]
                      in Inr \<lparr>ms_accumulated_cash = 0,
                              ms_bitcoin_held = bitcoin_held,
                              ms_trades = trades,
                              ms_portfolio_values = ms_portfolio_values s @
                                [0 + bitcoin_held * current_price],
                              ms_total_invested = total_invested\<rparr>)
                  else
                    Inr (s\<lparr>ms_accumulated_cash := accumulated_cash,
                           ms_portfolio_values := ms_portfolio_values s @
                             [accumulated_cash + ms_bitcoin_held s * current_price]\<rparr>))"

definition backtest_moving_average_strategy ::
    "bar list \<Rightarrow> int \<Rightarrow> real \<Rightarrow> error + ma_result" where
  "backtest_moving_average_strategy data ma_window daily_budget =
     bindE (calculate_moving_average data ma_window) (\<lambda>moving_averages.
     bindE (for_each (ma_step daily_budget moving_averages) (enumerate 0 data) ma_init) (\<lambda>s.
     bindE (last_item data) (\<lambda>final_bar.
       let accumulated_cash = ms_accumulated_cash s;
           bitcoin_held = ms_bitcoin_held s;
           total_invested = ms_total_invested s;
           final_value = accumulated_cash + bitcoin_held * close final_bar
       in bindE (return_percentage_of (final_value - total_invested) total_invested)
            (\<lambda>return_percentage.
              Inr \<lparr>mr_total_invested = total_invested,
                   mr_final_value = final_value,
                   mr_total_return = final_value - total_invested,
                   mr_return_percentage = return_percentage,
                   mr_trades = ms_trades s,
                   mr_portfolio_values = ms_portfolio_values s,
                   mr_moving_average_window = ma_window,
                   mr_bitcoin_held = bitcoin_held,
                   mr_accumulated_cash = accumulated_cash,
                   mr_daily_budget = daily_budget,
                   mr_number_of_days = length data\<rparr>))))"


section \<open>Predicates on the loop state and sample data\<close>

text \<open>The accounting invariant of each loop: the totals are the sums over the events.\<close>

definition dca_conserved :: "dca_state \<Rightarrow> bool" where
  "dca_conserved s \<longleftrightarrow>
     ds_total_invested s = sum_list (map dp_amount_invested (ds_purchases s))
     \<and> ds_total_bitcoin s = sum_list (map dp_bitcoin_purchased (ds_purchases s))"

definition ath_conserved :: "ath_state \<Rightarrow> bool" where
  "ath_conserved s \<longleftrightarrow>
     as_total_invested s = sum_list (map ap_amount_invested (as_purchases s))
     \<and> as_total_bitcoin s = sum_list (map ap_bitcoin_purchased (as_purchases s))"

definition ma_conserved :: "ma_state \<Rightarrow> bool" where
  "ma_conserved s \<longleftrightarrow>
     ms_total_invested s = sum_list (map mt_cash_used (ms_trades s))
     \<and> ms_bitcoin_held s = sum_list (map mt_amount (ms_trades s))"





text \<open>What every event of the dip strategy records.\<close>

definition ath_dipped :: "real \<Rightarrow> ath_state \<Rightarrow> bool" where
  "ath_dipped dip_percentage s \<longleftrightarrow>
     (\<forall>e\<in>set (as_purchases s).
        0 < ap_all_time_high e
        \<and> ap_price e \<le> (1 - dip_percentage / 100) * ap_all_time_high e
        \<and> ap_dip_percentage e = (ap_all_time_high e - ap_price e) / ap_all_time_high e * 100
        \<and> dip_percentage \<le> ap_dip_percentage e)"

text \<open>Signs of the totals, on bars with positive closes.\<close>

definition dca_nonneg :: "real \<Rightarrow> bar list \<Rightarrow> dca_state \<Rightarrow> bool" where
  "dca_nonneg daily_investment pre s \<longleftrightarrow>
     (0 \<le> daily_investment \<and> (\<forall>b\<in>set pre. 0 < close b)
        \<longrightarrow> 0 \<le> ds_total_invested s \<and> 0 \<le> ds_total_bitcoin s)"

definition ath_nonneg :: "bar list \<Rightarrow> ath_state \<Rightarrow> bool" where
  "ath_nonneg pre s \<longleftrightarrow>
     0 \<le> as_total_invested s
     \<and> ((\<forall>b\<in>set pre. 0 < close b) \<longrightarrow> 0 \<le> as_total_bitcoin s)"

text \<open>The entry of index \<open>i\<close> in the list built by \<^verbatim>\<open>calculate_moving_average\<close>.\<close>

definition moving_average_at :: "bar list \<Rightarrow> int \<Rightarrow> nat \<Rightarrow> real option" where
  "moving_average_at data window i =
     (if int i < window - 1 then None
      else Some (window_sum data window i / real_of_int window))"

text \<open>A bar with the given date, high and close, for the concrete runs below.\<close>

definition mk_bar :: "datetime \<Rightarrow> real \<Rightarrow> real \<Rightarrow> bar" where
  "mk_bar d h c = \<lparr>date = d, open_price = c, high = h, low = c, close = c, volume = 0\<rparr>"

definition sample_bars :: "bar list" where
  "sample_bars = [mk_bar 1 100 50, mk_bar 2 100 40]"

definition sample_dca_state :: dca_state where
  "sample_dca_state =
     \<lparr>ds_total_invested = 20, ds_total_bitcoin = 9 / 20,
      ds_purchases =
        [\<lparr>dp_date = 1, dp_price = 50, dp_amount_invested = 10,
          dp_bitcoin_purchased = 1 / 5, dp_total_bitcoin = 1 / 5,
          dp_total_invested = 10\<rparr>,
         \<lparr>dp_date = 2, dp_price = 40, dp_amount_invested = 10,
          dp_bitcoin_purchased = 1 / 4, dp_total_bitcoin = 9 / 20,
          dp_total_invested = 20\<rparr>],
      ds_portfolio_values = [10, 18]\<rparr>"

definition sample_ath_state :: ath_state where
  "sample_ath_state =
     \<lparr>as_all_time_high = 100, as_accumulated_cash = 0,
      as_total_invested = 2, as_total_bitcoin = 9 / 200,
      as_purchases =
        [\<lparr>ap_date = 1, ap_price = 50, ap_amount_invested = 1,
          ap_bitcoin_purchased = 1 / 50, ap_all_time_high = 100,
          ap_dip_percentage = 50, ap_total_bitcoin = 1 / 50,
          ap_total_invested = 1, ap_purchase_number = 1\<rparr>,
         \<lparr>ap_date = 2, ap_price = 40, ap_amount_invested = 1,
          ap_bitcoin_purchased = 1 / 40, ap_all_time_high = 100,
          ap_dip_percentage = 60, ap_total_bitcoin = 9 / 200,
          ap_total_invested = 2, ap_purchase_number = 2\<rparr>],
      as_portfolio_values =
        [\<lparr>av_date = 1, av_price = 50, av_ath = 100,
          av_portfolio_value = 1, av_total_invested = 1,
          av_accumulated_cash = 0, av_unrealized_return = 0\<rparr>,
         \<lparr>av_date = 2, av_price = 40, av_ath = 100,
          av_portfolio_value = 9 / 5, av_total_invested = 2,
          av_accumulated_cash = 0, av_unrealized_return = - (1 / 5)\<rparr>],
      as_purchase_count = 2\<rparr>"

definition sample_ma_state :: ma_state where
  "sample_ma_state =
     \<lparr>ms_accumulated_cash = 0, ms_bitcoin_held = 1 / 20,
      ms_trades =
        [\<lparr>mt_date = 2, mt_action = ''BUY'', mt_price = 40,
          mt_amount = 1 / 20, mt_cash_used = 2\<rparr>],
      ms_portfolio_values = [1, 2], ms_total_invested = 2\<rparr>"

definition sample_dca_result :: dca_result where
  "sample_dca_result =
     \<lparr>dr_total_invested = 20, dr_final_value = 18, dr_total_return = - 2,
      dr_return_percentage = - 10, dr_total_bitcoin = 9 / 20,
      dr_average_purchase_price = 400 / 9, dr_final_bitcoin_price = 40,
      dr_daily_investment = 10, dr_number_of_days = 2,
      dr_purchases = ds_purchases sample_dca_state,
      dr_portfolio_values = [10, 18]\<rparr>"

definition sample_ath_result :: ath_result where
  "sample_ath_result =
     \<lparr>ar_dip_percentage = 20, ar_daily_budget = 1, ar_total_invested = 2,
      ar_final_value = 9 / 5, ar_total_return = - (1 / 5),
      ar_return_percentage = - 10, ar_total_bitcoin = 9 / 200,
      ar_average_purchase_price = 400 / 9, ar_final_bitcoin_price = 40,
      ar_final_ath = 100, ar_accumulated_cash = 0,
      ar_number_of_purchases = 2, ar_number_of_days = 2,
      ar_purchases = as_purchases sample_ath_state,
      ar_portfolio_values = as_portfolio_values sample_ath_state\<rparr>"

definition sample_ma_result :: ma_result where
  "sample_ma_result =
     \<lparr>mr_total_invested = 2, mr_final_value = 2, mr_total_return = 0,
      mr_return_percentage = 0,
      mr_trades = ms_trades sample_ma_state,
      mr_portfolio_values = [1, 2], mr_moving_average_window = 2,
      mr_bitcoin_held = 1 / 20, mr_accumulated_cash = 0,
      mr_daily_budget = 1, mr_number_of_days = 2\<rparr>"

definition sample_ath_first :: ath_state where
  "sample_ath_first =
     \<lparr>as_all_time_high = 100, as_accumulated_cash = 0,
      as_total_invested = 1, as_total_bitcoin = 1 / 50,
      as_purchases =
        [\<lparr>ap_date = 1, ap_price = 50, ap_amount_invested = 1,
          ap_bitcoin_purchased = 1 / 50, ap_all_time_high = 100,
          ap_dip_percentage = 50, ap_total_bitcoin = 1 / 50,
          ap_total_invested = 1, ap_purchase_number = 1\<rparr>],
      as_portfolio_values =
        [\<lparr>av_date = 1, av_price = 50, av_ath = 100,
          av_portfolio_value = 1, av_total_invested = 1,
          av_accumulated_cash = 0, av_unrealized_return = 0\<rparr>],
      as_purchase_count = 1\<rparr>"

definition sample_ma_first :: ma_state where
  "sample_ma_first =
     \<lparr>ms_accumulated_cash = 1, ms_bitcoin_held = 0, ms_trades = [],
      ms_portfolio_values = [1], ms_total_invested = 0\<rparr>"

text \<open>A series whose second bar closes at 0.\<close>

definition zero_close_bars :: "bar list" where
  "zero_close_bars = [mk_bar 1 100 50, mk_bar 2 100 0]"


section \<open>The dip strategy in double arithmetic\<close>

text \<open>
  Rounding of a real number to the nearest double (binary64, ties to even). The
  mantissa is scaled into [2^52, 2^53) by at most 1074 doublings or halvings, which is
  the exponent range of the doubles down to the subnormals, and rounded to an integer.
  Overflow beyond the largest double is not modelled.
\<close>

fun scale_mantissa :: "nat \<Rightarrow> real \<Rightarrow> real \<Rightarrow> real \<times> real" where
  "scale_mantissa fuel m u =
     (if fuel = 0 then (m, u)
      else if 2 ^ 53 \<le> \<bar>m\<bar> then scale_mantissa (fuel - 1) (m / 2) (u * 2)
      else if \<bar>m\<bar> < 2 ^ 52 then scale_mantissa (fuel - 1) (m * 2) (u / 2)
      else (m, u))"

declare scale_mantissa.simps [simp del]

definition round_half_even :: "real \<Rightarrow> int" where
  "round_half_even x =
     (let f = \<lfloor>x\<rfloor>; d = x - of_int f
      in if d < 1 / 2 then f else if 1 / 2 < d then f + 1
         else if even f then f else f + 1)"

definition round_double :: "real \<Rightarrow> real" where
  "round_double x =
     (if x = 0 then 0
      else case scale_mantissa 1074 x 1 of (m, u) \<Rightarrow> of_int (round_half_even m) * u)"

text \<open>
  The dip strategy once more, line by line as above, with every arithmetic result passed
  through a rounding function \<open>rnd\<close>: \<open>round_double\<close> gives the arithmetic of the
  program, \<open>id\<close> the exact reading.
\<close>

definition truediv_rounded :: "(real \<Rightarrow> real) \<Rightarrow> real \<Rightarrow> real \<Rightarrow> error + real" where
  "truediv_rounded rnd a b = (if b = 0 then Inl ZeroDivisionError else Inr (rnd (a / b)))"

definition ath_record_value_rounded :: "(real \<Rightarrow> real) \<Rightarrow> bar \<Rightarrow> ath_state \<Rightarrow> ath_state" where
  "ath_record_value_rounded rnd day_data s =
     (let current_price = close day_data;
          portfolio_value =
            rnd (as_accumulated_cash s + rnd (as_total_bitcoin s * current_price))
      in s\<lparr>as_portfolio_values := as_portfolio_values s @
            [\<lparr>av_date = date day_data, av_price = current_price,
              av_ath = as_all_time_high s,
              av_portfolio_value = portfolio_value,
              av_total_invested = as_total_invested s,
              av_accumulated_cash = as_accumulated_cash s,
              av_unrealized_return =
                (if as_total_invested s > 0
                 then rnd (rnd (portfolio_value - as_total_invested s)
                        - as_accumulated_cash s)
                 else 0)\<rparr>]\<rparr>)"

definition ath_step_rounded ::
    "(real \<Rightarrow> real) \<Rightarrow> real \<Rightarrow> real \<Rightarrow> ath_state \<Rightarrow> bar \<Rightarrow> error + ath_state" where
  "ath_step_rounded rnd dip_percentage daily_budget s day_data =
     (let current_price = close day_data;
          current_high = high day_data;
          accumulated_cash = rnd (as_accumulated_cash s + daily_budget);
          all_time_high = max (as_all_time_high s) current_high;
          dip_threshold = rnd (all_time_high * rnd (1 - rnd (dip_percentage / 100)));
          buy_signal = (current_price \<le> dip_threshold \<and> accumulated_cash > 0)
      in if buy_signal \<and> all_time_high > 0 then
           bindE (truediv_rounded rnd accumulated_cash current_price) (\<lambda>bitcoin_purchased.
             let total_bitcoin = rnd (as_total_bitcoin s + bitcoin_purchased);
                 total_invested = rnd (as_total_invested s + accumulated_cash);
                 purchase_count = as_purchase_count s + 1
             in bindE (truediv_rounded rnd (rnd (all_time_high - current_price)) all_time_high)
                  (\<lambda>q.
                  let dip_from_ath = rnd (q * 100);
                      purchases = as_purchases s @
                        [\<lparr>ap_date = date day_data, ap_price = current_price,
                          ap_amount_invested = accumulated_cash,
                          ap_bitcoin_purchased = bitcoin_purchased,
                          ap_all_time_high = all_time_high,
                          ap_dip_percentage = dip_from_ath,
                          ap_total_bitcoin = total_bitcoin,
                          ap_total_invested = total_invested,
                          ap_purchase_number = purchase_count\<rparr>]
                  in Inr (ath_record_value_rounded rnd day_data
                       (s\<lparr>as_all_time_high := all_time_high,
                          as_accumulated_cash := 0,
                          as_total_invested := total_invested,
                          as_total_bitcoin := total_bitcoin,
                          as_purchases := purchases,
                          as_purchase_count := purchase_count\<rparr>))))
         else Inr (ath_record_value_rounded rnd day_data
                (s\<lparr>as_all_time_high := all_time_high,
                   as_accumulated_cash := accumulated_cash\<rparr>)))"

definition return_percentage_rounded :: "(real \<Rightarrow> real) \<Rightarrow> real \<Rightarrow> real \<Rightarrow> error + real" where
  "return_percentage_rounded rnd total_return total_invested =
     (if total_invested > 0
      then bindE (truediv_rounded rnd total_return total_invested) (\<lambda>q. Inr (rnd (q * 100)))
      else Inr 0)"

definition avg_purchase_price_rounded :: "(real \<Rightarrow> real) \<Rightarrow> real \<Rightarrow> real \<Rightarrow> error + real" where
  "avg_purchase_price_rounded rnd total_invested total_bitcoin =
     (if total_bitcoin > 0 then truediv_rounded rnd total_invested total_bitcoin else Inr 0)"

definition backtest_ath_dip_strategy_rounded ::
    "(real \<Rightarrow> real) \<Rightarrow> bar list \<Rightarrow> real \<Rightarrow> real \<Rightarrow> error + ath_result" where
  "backtest_ath_dip_strategy_rounded rnd data dip_percentage daily_budget =
     bindE (for_each (ath_step_rounded rnd dip_percentage daily_budget) data ath_init) (\<lambda>s.
     bindE (last_item data) (\<lambda>final_bar.
       let final_price = close final_bar;
           accumulated_cash = as_accumulated_cash s;
           total_bitcoin = as_total_bitcoin s;
           total_invested = as_total_invested s;
           final_value = rnd (accumulated_cash + rnd (total_bitcoin * final_price));
           total_return = rnd (rnd (final_value - total_invested) - accumulated_cash)
       in bindE (return_percentage_rounded rnd total_return total_invested)
            (\<lambda>return_percentage.
          bindE (avg_purchase_price_rounded rnd total_invested total_bitcoin)
            (\<lambda>avg_purchase_price.
            Inr \<lparr>ar_dip_percentage = dip_percentage,
                 ar_daily_budget = daily_budget,
                 ar_total_invested = total_invested,
                 ar_final_value = final_value,
                 ar_total_return = total_return,
                 ar_return_percentage = return_percentage,
                 ar_total_bitcoin = total_bitcoin,
                 ar_average_purchase_price = avg_purchase_price,
                 ar_final_bitcoin_price = final_price,
                 ar_final_ath = as_all_time_high s,
                 ar_accumulated_cash = accumulated_cash,
                 ar_number_of_purchases = length (as_purchases s),
                 ar_number_of_days = length data,
                 ar_purchases = as_purchases s,
                 ar_portfolio_values = as_portfolio_values s\<rparr>))))"

text \<open>What every event of the dip strategy records, as computed.\<close>

definition ath_recorded :: "(real \<Rightarrow> real) \<Rightarrow> real \<Rightarrow> ath_state \<Rightarrow> bool" where
  "ath_recorded rnd dip_percentage s \<longleftrightarrow>
     (\<forall>e\<in>set (as_purchases s).
        0 < ap_all_time_high e
        \<and> ap_price e \<le> rnd (ap_all_time_high e * rnd (1 - rnd (dip_percentage / 100)))
        \<and> ap_dip_percentage e
            = rnd (rnd (rnd (ap_all_time_high e - ap_price e) / ap_all_time_high e) * 100))"

text \<open>The summary of the run on one bar with high 100 and close 71, at a dip of 29.\<close>

definition boundary_double_result :: ath_result where
  "boundary_double_result =
     \<lparr>ar_dip_percentage = 29, ar_daily_budget = 1, ar_total_invested = 1,
      ar_final_value = 1, ar_total_return = 0, ar_return_percentage = 0,
      ar_total_bitcoin = 8119165525400331 / 576460752303423488,
      ar_average_purchase_price = 71, ar_final_bitcoin_price = 71,
      ar_final_ath = 100, ar_accumulated_cash = 0,
      ar_number_of_purchases = 1, ar_number_of_days = 1,
      ar_purchases =
        [\<lparr>ap_date = 1, ap_price = 71, ap_amount_invested = 1,
          ap_bitcoin_purchased = 8119165525400331 / 576460752303423488,
          ap_all_time_high = 100,
          ap_dip_percentage = 8162774324609023 / 281474976710656,
          ap_total_bitcoin = 8119165525400331 / 576460752303423488,
          ap_total_invested = 1, ap_purchase_number = 1\<rparr>],
      ar_portfolio_values =
        [\<lparr>av_date = 1, av_price = 71, av_ath = 100,
          av_portfolio_value = 1, av_total_invested = 1,
          av_accumulated_cash = 0, av_unrealized_return = 0\<rparr>]\<rparr>"


section \<open>The loop combinator\<close>

lemma bindE_eq_Inr: "bindE m f = Inr y \<longleftrightarrow> (\<exists>x. m = Inr x \<and> f x = Inr y)"
  by (cases m) auto

lemma bindE_eq_Inl: "bindE m f = Inl e \<longleftrightarrow> m = Inl e \<or> (\<exists>x. m = Inr x \<and> f x = Inl e)"
  by (cases m) auto

lemma for_each_append:
  "for_each body (xs @ ys) s = bindE (for_each body xs s) (for_each body ys)"
proof (induction xs arbitrary: s)
  case Nil
  show ?case by simp
next
  case (Cons x xs)
  show ?case by (cases "body s x") (simp_all add: Cons.IH)
qed

lemma for_each_snoc:
  "for_each body (xs @ [x]) s = bindE (for_each body xs s) (\<lambda>t. body t x)"
proof -
  have "for_each body [x] = (\<lambda>t. body t x)"
  proof
    fix t show "for_each body [x] t = body t x" by (cases "body t x") simp_all
  qed
  then show ?thesis by (simp add: for_each_append)
qed

text \<open>An invariant that may mention the items processed so far.\<close>

lemma for_each_invariant:
  assumes "P pre s"
    and "\<And>pre s x s'. P pre s \<Longrightarrow> body s x = Inr s' \<Longrightarrow> P (pre @ [x]) s'"
    and "for_each body xs s = Inr t"
  shows "P (pre @ xs) t"
  using assms(1,3)
proof (induction xs arbitrary: pre s)
  case Nil
  then show ?case by simp
next
  case (Cons x xs)
  from Cons.prems(2) obtain s' where s': "body s x = Inr s'" "for_each body xs s' = Inr t"
    by (auto simp: bindE_eq_Inr)
  from assms(2) [OF Cons.prems(1) s'(1)] have "P (pre @ [x]) s'" .
  from Cons.IH [OF this s'(2)] show ?case by simp
qed


section \<open>Elementary facts about the steps\<close>

lemma truediv_eq_Inr: "truediv a b = Inr q \<longleftrightarrow> b \<noteq> 0 \<and> q = a / b"
  by (auto simp: truediv_def)

lemma truediv_eq_Inl: "truediv a b = Inl e \<longleftrightarrow> b = 0 \<and> e = ZeroDivisionError"
  by (auto simp: truediv_def)

lemma dca_step_conserved:
  "dca_conserved s \<Longrightarrow> dca_step di s b = Inr s' \<Longrightarrow> dca_conserved s'"
  by (auto simp: dca_step_def dca_conserved_def Let_def bindE_eq_Inr truediv_eq_Inr)

lemma ath_step_conserved:
  "ath_conserved s \<Longrightarrow> ath_step d b s x = Inr s' \<Longrightarrow> ath_conserved s'"
  by (auto simp: ath_step_def ath_record_value_def ath_conserved_def Let_def bindE_eq_Inr truediv_eq_Inr
      split: if_splits)

lemma ma_step_conserved:
  "ma_conserved s \<Longrightarrow> ma_step b mas s x = Inr s' \<Longrightarrow> ma_conserved s'"
  by (auto simp: ma_step_def ma_conserved_def Let_def bindE_eq_Inr truediv_eq_Inr
      split: if_splits option.splits)









text \<open>What a returned summary was built from.\<close>

lemma backtest_dca_Inr:
  assumes "backtest_dca_strategy data di = Inr r"
  obtains s where "for_each (dca_step di) data dca_init = Inr s" "data \<noteq> []"
    "dr_total_invested r = ds_total_invested s" "dr_total_bitcoin r = ds_total_bitcoin s"
    "dr_purchases r = ds_purchases s" "dr_portfolio_values r = ds_portfolio_values s"
    "dr_final_value r = ds_total_bitcoin s * close (last data)"
    "dr_total_return r = dr_final_value r - ds_total_invested s"
    "return_percentage_of (dr_total_return r) (ds_total_invested s) = Inr (dr_return_percentage r)"
    "avg_purchase_price_of (ds_total_invested s) (ds_total_bitcoin s) = Inr (dr_average_purchase_price r)"
  using assms
  by (auto simp: backtest_dca_strategy_def bindE_eq_Inr last_item_def Let_def split: if_splits)

lemma backtest_ath_Inr:
  assumes "backtest_ath_dip_strategy data d b = Inr r"
  obtains s where "for_each (ath_step d b) data ath_init = Inr s" "data \<noteq> []"
    "ar_total_invested r = as_total_invested s" "ar_total_bitcoin r = as_total_bitcoin s"
    "ar_accumulated_cash r = as_accumulated_cash s"
    "ar_purchases r = as_purchases s" "ar_portfolio_values r = as_portfolio_values s"
    "ar_final_value r = as_accumulated_cash s + as_total_bitcoin s * close (last data)"
    "ar_total_return r = ar_final_value r - as_total_invested s - as_accumulated_cash s"
    "return_percentage_of (ar_total_return r) (as_total_invested s) = Inr (ar_return_percentage r)"
    "avg_purchase_price_of (as_total_invested s) (as_total_bitcoin s) = Inr (ar_average_purchase_price r)"
  using assms
  by (auto simp: backtest_ath_dip_strategy_def bindE_eq_Inr last_item_def Let_def split: if_splits)

lemma backtest_ma_Inr:
  assumes "backtest_moving_average_strategy data w b = Inr r"
  obtains mas s where "calculate_moving_average data w = Inr mas"
    "for_each (ma_step b mas) (enumerate 0 data) ma_init = Inr s" "data \<noteq> []"
    "mr_total_invested r = ms_total_invested s" "mr_bitcoin_held r = ms_bitcoin_held s"
    "mr_accumulated_cash r = ms_accumulated_cash s"
    "mr_trades r = ms_trades s" "mr_portfolio_values r = ms_portfolio_values s"
    "mr_final_value r = ms_accumulated_cash s + ms_bitcoin_held s * close (last data)"
    "mr_total_return r = mr_final_value r - ms_total_invested s"
    "return_percentage_of (mr_total_return r) (ms_total_invested s) = Inr (mr_return_percentage r)"
  using assms
  by (auto simp: backtest_moving_average_strategy_def bindE_eq_Inr last_item_def Let_def split: if_splits)

lemma dip_from_threshold:
  fixes ath price d :: real
  assumes "0 < ath" "price \<le> ath * (1 - d / 100)"
  shows "d \<le> (ath - price) / ath * 100"
proof -
  from assms(2) have "ath * d \<le> (ath - price) * 100" by (simp add: algebra_simps)
  with assms(1) have "d \<le> (ath - price) * 100 / ath"
    by (simp add: pos_le_divide_eq mult.commute)
  then show ?thesis by simp
qed

lemma ath_step_dipped:
  assumes "ath_dipped d s" "ath_step d b s x = Inr s'"
  shows "ath_dipped d s'"
proof (cases "as_purchases s' = as_purchases s")
  case True
  with assms(1) show ?thesis by (simp only: ath_dipped_def)
next
  case False
  with assms(2) obtain e where e: "as_purchases s' = as_purchases s @ [e]"
    "0 < ap_all_time_high e" "ap_price e \<le> ap_all_time_high e * (1 - d / 100)"
    "ap_dip_percentage e = (ap_all_time_high e - ap_price e) / ap_all_time_high e * 100"
    by (auto simp: ath_step_def ath_record_value_def Let_def bindE_eq_Inr truediv_eq_Inr
        split: if_splits)
  from dip_from_threshold [OF e(2,3)] e(4) have "d \<le> ap_dip_percentage e" by simp
  have "(1 - d / 100) * ap_all_time_high e = ap_all_time_high e * (1 - d / 100)"
    by (rule mult.commute)
  with e(3) have "ap_price e \<le> (1 - d / 100) * ap_all_time_high e" by (simp only:)
  with assms(1) e(1,2,4) \<open>d \<le> ap_dip_percentage e\<close> show ?thesis
    unfolding ath_dipped_def by auto
qed

lemma dca_step_nonneg:
  "dca_nonneg di pre s \<Longrightarrow> dca_step di s x = Inr s' \<Longrightarrow> dca_nonneg di (pre @ [x]) s'"
  by (auto simp: dca_step_def dca_nonneg_def Let_def bindE_eq_Inr truediv_eq_Inr)

lemma ath_step_nonneg:
  "ath_nonneg pre s \<Longrightarrow> ath_step d b s x = Inr s' \<Longrightarrow> ath_nonneg (pre @ [x]) s'"
  by (auto simp: ath_step_def ath_record_value_def ath_nonneg_def Let_def bindE_eq_Inr
      truediv_eq_Inr split: if_splits)

lemma ma_step_nonneg:
  "0 \<le> ms_total_invested s \<Longrightarrow> ma_step b mas s x = Inr s' \<Longrightarrow> 0 \<le> ms_total_invested s'"
  by (auto simp: ma_step_def Let_def bindE_eq_Inr truediv_eq_Inr
      split: if_splits option.splits)

lemma dca_loop_nonneg:
  assumes "for_each (dca_step di) data dca_init = Inr s" "0 \<le> di" "\<forall>b\<in>set data. 0 < close b"
  shows "0 \<le> ds_total_invested s" "0 \<le> ds_total_bitcoin s"
proof -
  have "dca_nonneg di [] dca_init" by (simp add: dca_nonneg_def dca_init_def)
  from for_each_invariant [where P = "dca_nonneg di", OF this _ assms(1)]
  have "dca_nonneg di data s" by (simp add: dca_step_nonneg)
  with assms(2,3) show "0 \<le> ds_total_invested s" "0 \<le> ds_total_bitcoin s"
    by (simp_all add: dca_nonneg_def)
qed

lemma ath_loop_nonneg:
  assumes "for_each (ath_step d b) data ath_init = Inr s"
  shows "0 \<le> as_total_invested s" "(\<forall>b\<in>set data. 0 < close b) \<Longrightarrow> 0 \<le> as_total_bitcoin s"
proof -
  have "ath_nonneg [] ath_init" by (simp add: ath_nonneg_def ath_init_def)
  from for_each_invariant [where P = ath_nonneg, OF this _ assms(1)]
  have *: "ath_nonneg data s" by (simp add: ath_step_nonneg)
  then show "0 \<le> as_total_invested s" by (simp add: ath_nonneg_def)
  from * show "(\<forall>b\<in>set data. 0 < close b) \<Longrightarrow> 0 \<le> as_total_bitcoin s"
    by (simp add: ath_nonneg_def)
qed

lemma ma_loop_nonneg:
  assumes "for_each (ma_step b mas) xs ma_init = Inr s"
  shows "0 \<le> ms_total_invested s"
proof -
  have "0 \<le> ms_total_invested ma_init" by (simp add: ma_init_def)
  from for_each_invariant [where P = "\<lambda>_ s. 0 \<le> ms_total_invested s", OF this _ assms(1)]
  show ?thesis by (blast intro: ma_step_nonneg)
qed

text \<open>The two guarded divisions.\<close>

lemma return_percentage_of_Inr:
  "0 \<le> ti \<Longrightarrow> return_percentage_of tr ti = Inr v \<Longrightarrow>
     v = (if ti = 0 then 0 else tr / ti * 100)"
  by (auto simp: return_percentage_of_def bindE_eq_Inr truediv_eq_Inr split: if_splits)

lemma avg_purchase_price_of_Inr:
  "0 \<le> tb \<Longrightarrow> avg_purchase_price_of ti tb = Inr v \<Longrightarrow>
     v = (if tb = 0 then 0 else ti / tb)"
  by (auto simp: avg_purchase_price_of_def truediv_eq_Inr split: if_splits)

lemma return_percentage_of_total: "\<exists>v. return_percentage_of tr ti = Inr v"
  by (simp add: return_percentage_of_def truediv_def)

lemma avg_purchase_price_of_total: "\<exists>v. avg_purchase_price_of ti tb = Inr v"
  by (simp add: avg_purchase_price_of_def truediv_def)

text \<open>Runs on bars with non-zero closes return.\<close>

lemma dca_loop_total:
  "\<forall>b\<in>set data. close b \<noteq> 0 \<Longrightarrow> \<exists>s'. for_each (dca_step di) data s = Inr s'"
proof (induction data arbitrary: s)
  case Nil
  show ?case by simp
next
  case (Cons x xs)
  then have "close x \<noteq> 0" by simp
  then obtain s1 where "dca_step di s x = Inr s1"
    by (simp add: dca_step_def truediv_def Let_def)
  with Cons show ?case by simp
qed

lemma ath_step_total: "close x \<noteq> 0 \<Longrightarrow> \<exists>s'. ath_step d b s x = Inr s'"
  by (simp add: ath_step_def truediv_def Let_def)

lemma ath_loop_total:
  "\<forall>b\<in>set data. close b \<noteq> 0 \<Longrightarrow> \<exists>s'. for_each (ath_step d b) data s = Inr s'"
proof (induction data arbitrary: s)
  case Nil
  show ?case by simp
next
  case (Cons x xs)
  then have "close x \<noteq> 0" by simp
  from ath_step_total [OF this] obtain s1 where "ath_step d b s x = Inr s1" by blast
  with Cons show ?case by simp
qed

lemma ma_step_total:
  "close (snd x) \<noteq> 0 \<Longrightarrow> fst x < length mas \<Longrightarrow> \<exists>s'. ma_step b mas s x = Inr s'"
  by (simp add: ma_step_def truediv_def Let_def split: option.splits)

lemma ma_loop_total:
  "\<forall>b\<in>set xs. close b \<noteq> 0 \<Longrightarrow> k + length xs \<le> length mas \<Longrightarrow>
     \<exists>s'. for_each (ma_step b mas) (enumerate k xs) s = Inr s'"
proof (induction xs arbitrary: s k)
  case Nil
  show ?case by simp
next
  case (Cons x xs)
  then have "close (snd (k, x)) \<noteq> 0" "fst (k, x) < length mas" by simp_all
  from ma_step_total [OF this] obtain s1 where "ma_step b mas s (k, x) = Inr s1" by blast
  moreover from Cons.prems have "\<forall>b\<in>set xs. close b \<noteq> 0" "Suc k + length xs \<le> length mas"
    by simp_all
  from Cons.IH [OF this] obtain s2 where "for_each (ma_step b mas) (enumerate (Suc k) xs) s1 = Inr s2"
    by blast
  ultimately show ?case by simp
qed

text \<open>The list built by \<^verbatim>\<open>calculate_moving_average\<close>.\<close>

lemma calculate_moving_average_loop:
  "window \<noteq> 0 \<Longrightarrow>
     for_each (calculate_moving_average_step data window) ns acc
       = Inr (acc @ map (moving_average_at data window) ns)"
  by (induction ns arbitrary: acc)
    (simp_all add: calculate_moving_average_step_def moving_average_at_def truediv_def)

lemma calculate_moving_average_Inr:
  "window \<noteq> 0 \<Longrightarrow>
     calculate_moving_average data window
       = Inr (map (moving_average_at data window) [0..<length data])"
  by (simp add: calculate_moving_average_def calculate_moving_average_loop)

lemma calculate_moving_average_early:
  "for_each (calculate_moving_average_step data window) ns acc = Inr mas \<Longrightarrow>
     length mas = length acc + length ns"
proof (induction ns arbitrary: acc)
  case Nil
  then show ?case by simp
next
  case (Cons n ns)
  then show ?case
    by (auto simp: calculate_moving_average_step_def bindE_eq_Inr truediv_eq_Inr
        split: if_splits)
qed

lemma calculate_moving_average_length:
  "calculate_moving_average data window = Inr mas \<Longrightarrow> length mas = length data"
  by (auto simp: calculate_moving_average_def dest: calculate_moving_average_early)

lemma backtest_dca_total:
  assumes "data \<noteq> []" "\<forall>b\<in>set data. close b \<noteq> 0"
  shows "\<exists>r. backtest_dca_strategy data di = Inr r"
proof -
  from dca_loop_total [OF assms(2)] obtain s where "for_each (dca_step di) data dca_init = Inr s"
    by blast
  moreover obtain v where "return_percentage_of (ds_total_bitcoin s * close (last data) - ds_total_invested s) (ds_total_invested s) = Inr v"
    using return_percentage_of_total by blast
  moreover obtain w where "avg_purchase_price_of (ds_total_invested s) (ds_total_bitcoin s) = Inr w"
    using avg_purchase_price_of_total by blast
  ultimately show ?thesis using assms(1)
    by (simp add: backtest_dca_strategy_def last_item_def Let_def)
qed

lemma backtest_ath_total:
  assumes "data \<noteq> []" "\<forall>b\<in>set data. close b \<noteq> 0"
  shows "\<exists>r. backtest_ath_dip_strategy data d b = Inr r"
proof -
  from ath_loop_total [OF assms(2)] obtain s where "for_each (ath_step d b) data ath_init = Inr s"
    by blast
  moreover obtain v where "return_percentage_of (as_accumulated_cash s + as_total_bitcoin s * close (last data) - as_total_invested s - as_accumulated_cash s) (as_total_invested s) = Inr v"
    using return_percentage_of_total by blast
  moreover obtain w where "avg_purchase_price_of (as_total_invested s) (as_total_bitcoin s) = Inr w"
    using avg_purchase_price_of_total by blast
  ultimately show ?thesis using assms(1)
    by (simp add: backtest_ath_dip_strategy_def last_item_def Let_def)
qed

lemma backtest_ma_total:
  assumes "data \<noteq> []" "\<forall>b\<in>set data. close b \<noteq> 0" "w \<noteq> 0"
  shows "\<exists>r. backtest_moving_average_strategy data w b = Inr r"
proof -
  let ?mas = "map (moving_average_at data w) [0..<length data]"
  have m: "calculate_moving_average data w = Inr ?mas"
    by (rule calculate_moving_average_Inr [OF assms(3)])
  have "0 + length data \<le> length ?mas" by simp
  from ma_loop_total [OF assms(2) this] obtain s
    where "for_each (ma_step b ?mas) (enumerate 0 data) ma_init = Inr s"
    by blast
  moreover obtain v where "return_percentage_of (ms_accumulated_cash s + ms_bitcoin_held s * close (last data) - ms_total_invested s) (ms_total_invested s) = Inr v"
    using return_percentage_of_total by blast
  ultimately show ?thesis using assms(1) m
    by (simp add: backtest_moving_average_strategy_def last_item_def Let_def)
qed

text \<open>The window sum reads the \<open>window\<close> most recent closes.\<close>

lemma upto_as_upt: "[int a .. int a + int k - 1] = map int [a ..< a + k]"
proof (induction k)
  case 0
  show ?case by simp
next
  case (Suc k)
  have "[int a .. int a + int (Suc k) - 1] = [int a .. int a + int k - 1] @ [int a + int k]"
    using upto_rec2 [of "int a" "int a + int k"] by simp
  with Suc show ?case by simp
qed

lemma nth_upt_take_drop:
  "a + k \<le> length xs \<Longrightarrow> map ((!) xs) [a ..< a + k] = take k (drop a xs)"
  by (rule nth_equalityI) simp_all

lemma window_sum_take_drop:
  assumes "1 \<le> window" "window - 1 \<le> int i" "i < length data"
  shows "window_sum data window i
           = sum_list (map close (take (nat window) (drop (Suc i - nat window) data)))"
proof -
  define k where "k = nat window"
  define a where "a = Suc i - k"
  from assms(1,2) have ik: "int k = window" "k \<le> Suc i" by (simp_all add: k_def)
  then have lo: "int i - window + 1 = int a" and hi: "int i = int a + int k - 1"
    by (simp_all add: a_def)
  from ik(2) assms(3) have le: "a + k \<le> length data" by (simp add: a_def)
  have "window_sum data window i
          = sum_list (map (\<lambda>j. close (data ! nat j)) [int a .. int a + int k - 1])"
    unfolding window_sum_def lo using hi by simp
  also have "\<dots> = sum_list (map (\<lambda>n. close (data ! n)) [a ..< a + k])"
    by (simp only: upto_as_upt map_map o_def nat_int)
  also have "\<dots> = sum_list (map close (map ((!) data) [a ..< a + k]))"
    by (simp only: map_map o_def)
  also have "\<dots> = sum_list (map close (take k (drop a data)))"
    by (simp only: nth_upt_take_drop [OF le])
  finally show ?thesis by (simp only: k_def a_def)
qed

lemma ma_step_prefix:
  assumes "n < length data"
    and "for_each (ma_step b mas) (take n (enumerate 0 data)) ma_init = Inr s"
  shows "for_each (ma_step b mas) (take (Suc n) (enumerate 0 data)) ma_init
           = ma_step b mas s (n, data ! n)"
proof -
  from assms(1) have "take (Suc n) (enumerate 0 data) = take n (enumerate 0 data) @ [(n, data ! n)]"
    by (simp add: take_Suc_conv_app_nth nth_enumerate_eq)
  with assms(2) show ?thesis by (simp add: for_each_snoc)
qed

text \<open>An exception raised in the loop body leaves the loop.\<close>

lemma for_each_raises:
  assumes "n < length xs" "for_each body (take n xs) s0 = Inr s" "body s (xs ! n) = Inl e"
  shows "for_each body xs s0 = Inl e"
proof -
  from assms(1) have "xs = take n xs @ xs ! n # drop (Suc n) xs"
    by (rule id_take_nth_drop)
  then have "for_each body xs s0
      = bindE (for_each body (take n xs) s0) (for_each body (xs ! n # drop (Suc n) xs))"
    using for_each_append [of body "take n xs" "xs ! n # drop (Suc n) xs" s0] by simp
  with assms(2,3) show ?thesis by simp
qed

lemma dca_loop_zero_close:
  "\<exists>b\<in>set data. close b = 0 \<Longrightarrow> for_each (dca_step di) data s = Inl ZeroDivisionError"
proof (induction data arbitrary: s)
  case Nil
  then show ?case by simp
next
  case (Cons x xs)
  show ?case
  proof (cases "close x = 0")
    case True
    then have "dca_step di s x = Inl ZeroDivisionError"
      by (simp add: dca_step_def truediv_def)
    then show ?thesis by simp
  next
    case False
    then obtain s1 where s1: "dca_step di s x = Inr s1"
      by (simp add: dca_step_def truediv_def Let_def)
    from False Cons.prems have "\<exists>b\<in>set xs. close b = 0" by auto
    from Cons.IH [OF this] s1 show ?thesis by simp
  qed
qed

lemma ath_step_zero_close:
  assumes "close x = 0"
    and "0 \<le> max (as_all_time_high s) (high x) * (1 - d / 100)"
    and "0 < max (as_all_time_high s) (high x)"
    and "0 < as_accumulated_cash s + b"
  shows "ath_step d b s x = Inl ZeroDivisionError"
  using assms by (simp add: ath_step_def truediv_def Let_def)

lemma ma_step_zero_close:
  assumes "close x = 0" "i < length mas" "mas ! i = Some avg" "0 < avg"
    and "0 < ms_accumulated_cash s + b"
  shows "ma_step b mas s (i, x) = Inl ZeroDivisionError"
  using assms by (simp add: ma_step_def truediv_def Let_def)

text \<open>The sample runs, evaluated.\<close>

lemmas run_defs = mk_bar_def truediv_def Let_def dca_step_def dca_init_def ath_step_def
  ath_init_def ath_record_value_def ma_step_def ma_init_def last_item_def
  return_percentage_of_def avg_purchase_price_of_def

lemma sample_dca_loop: "for_each (dca_step 10) sample_bars dca_init = Inr sample_dca_state"
  by (simp add: sample_bars_def sample_dca_state_def run_defs)

lemma sample_ath_loop: "for_each (ath_step 20 1) sample_bars ath_init = Inr sample_ath_state"
  by (simp add: sample_bars_def sample_ath_state_def run_defs)

lemma sample_moving_averages: "calculate_moving_average sample_bars 2 = Inr [None, Some 45]"
  by (simp add: sample_bars_def calculate_moving_average_def calculate_moving_average_step_def
      window_sum_def mk_bar_def truediv_def upt_rec upto.simps)

lemma sample_ma_loop:
  "for_each (ma_step 1 [None, Some 45]) (enumerate 0 sample_bars) ma_init = Inr sample_ma_state"
  by (simp add: sample_bars_def sample_ma_state_def run_defs)

lemma sample_dca_run: "backtest_dca_strategy sample_bars 10 = Inr sample_dca_result"
  unfolding backtest_dca_strategy_def sample_dca_loop
  by (simp add: sample_bars_def sample_dca_state_def sample_dca_result_def run_defs)

lemma sample_ath_run: "backtest_ath_dip_strategy sample_bars 20 1 = Inr sample_ath_result"
  unfolding backtest_ath_dip_strategy_def sample_ath_loop
  by (simp add: sample_bars_def sample_ath_state_def sample_ath_result_def run_defs)

lemma sample_ma_run: "backtest_moving_average_strategy sample_bars 2 1 = Inr sample_ma_result"
  unfolding backtest_moving_average_strategy_def sample_moving_averages bindE.simps sample_ma_loop
  by (simp add: sample_bars_def sample_ma_state_def sample_ma_result_def run_defs)

lemma sample_ath_first_step:
  "ath_step 20 1 ath_init (mk_bar 1 100 50) = Inr sample_ath_first"
  by (simp add: sample_ath_first_def run_defs)

lemma sample_ma_prefixes:
  "for_each (ma_step 1 [None, Some 45]) (take 0 (enumerate 0 sample_bars)) ma_init
     = Inr ma_init"
  "for_each (ma_step 1 [None, Some 45]) (take (Suc 0) (enumerate 0 sample_bars)) ma_init
     = Inr sample_ma_first"
  "for_each (ma_step 1 [None, Some 45]) (take (Suc (Suc 0)) (enumerate 0 sample_bars)) ma_init
     = Inr sample_ma_state"
  by (simp_all add: sample_bars_def sample_ma_first_def sample_ma_state_def run_defs)

lemma zero_close_moving_averages:
  "calculate_moving_average zero_close_bars 2 = Inr [None, Some 25]"
  by (simp add: zero_close_bars_def calculate_moving_average_def calculate_moving_average_step_def
      window_sum_def mk_bar_def truediv_def upt_rec upto.simps)

lemma zero_close_ath_prefix:
  "for_each (ath_step 20 1) (take (Suc 0) zero_close_bars) ath_init = Inr sample_ath_first"
  by (simp add: zero_close_bars_def sample_ath_first_def run_defs)

lemma zero_close_ma_prefix:
  "for_each (ma_step 1 [None, Some 25]) (take (Suc 0) (enumerate 0 zero_close_bars)) ma_init
     = Inr sample_ma_first"
  by (simp add: zero_close_bars_def sample_ma_first_def run_defs)


text \<open>The rounded dip strategy: with no rounding it is the exact one.\<close>

lemma truediv_rounded_exact: "truediv_rounded id = truediv"
  by (intro ext) (simp add: truediv_rounded_def truediv_def)

lemma ath_record_value_rounded_exact: "ath_record_value_rounded id = ath_record_value"
  by (intro ext) (simp add: ath_record_value_rounded_def ath_record_value_def Let_def)

lemma ath_step_rounded_exact: "ath_step_rounded id = ath_step"
  by (intro ext)
    (simp add: ath_step_rounded_def ath_step_def truediv_rounded_exact
      ath_record_value_rounded_exact Let_def)

lemma backtest_ath_dip_strategy_rounded_exact:
  "backtest_ath_dip_strategy_rounded id = backtest_ath_dip_strategy"
proof -
  have "return_percentage_rounded id = return_percentage_of"
    by (intro ext) (simp add: return_percentage_rounded_def return_percentage_of_def
        truediv_rounded_exact)
  moreover have "avg_purchase_price_rounded id = avg_purchase_price_of"
    by (intro ext) (simp add: avg_purchase_price_rounded_def avg_purchase_price_of_def
        truediv_rounded_exact)
  ultimately show ?thesis
    by (intro ext)
      (simp add: backtest_ath_dip_strategy_rounded_def backtest_ath_dip_strategy_def
        ath_step_rounded_exact Let_def)
qed

lemma truediv_rounded_eq_Inr:
  "truediv_rounded rnd a b = Inr q \<longleftrightarrow> b \<noteq> 0 \<and> q = rnd (a / b)"
  by (auto simp: truediv_rounded_def)

lemma ath_step_rounded_recorded:
  assumes "ath_recorded rnd d s" "ath_step_rounded rnd d b s x = Inr s'"
  shows "ath_recorded rnd d s'"
proof (cases "as_purchases s' = as_purchases s")
  case True
  with assms(1) show ?thesis by (simp only: ath_recorded_def)
next
  case False
  with assms(2) obtain e where e: "as_purchases s' = as_purchases s @ [e]"
    "0 < ap_all_time_high e"
    "ap_price e \<le> rnd (ap_all_time_high e * rnd (1 - rnd (d / 100)))"
    "ap_dip_percentage e
       = rnd (rnd (rnd (ap_all_time_high e - ap_price e) / ap_all_time_high e) * 100)"
    by (auto simp: ath_step_rounded_def ath_record_value_rounded_def Let_def bindE_eq_Inr
        truediv_rounded_eq_Inr split: if_splits)
  with assms(1) show ?thesis unfolding ath_recorded_def by auto
qed

lemma backtest_ath_rounded_Inr:
  assumes "backtest_ath_dip_strategy_rounded rnd data d b = Inr r"
  obtains s where "for_each (ath_step_rounded rnd d b) data ath_init = Inr s"
    "ar_purchases r = as_purchases s"
  using assms
  by (auto simp: backtest_ath_dip_strategy_rounded_def bindE_eq_Inr Let_def)

lemma boundary_double_run:
  "backtest_ath_dip_strategy_rounded round_double [mk_bar 1 100 71] 29 1
     = Inr boundary_double_result"
  by (simp add: backtest_ath_dip_strategy_rounded_def ath_step_rounded_def
      ath_record_value_rounded_def truediv_rounded_def return_percentage_rounded_def
      avg_purchase_price_rounded_def boundary_double_result_def round_double_def
      round_half_even_def mk_bar_def ath_init_def last_item_def Let_def
      scale_mantissa.simps)


section \<open>The empty series\<close>

text \<open>
  C1 (as the code has it). On the empty series each of the three backtests reaches
  \<^verbatim>\<open>data[-1]\<close> after a loop that never runs, and raises \<^verbatim>\<open>IndexError\<close>: no
  summary record is returned.
\<close>

theorem empty_series_raises:
  "backtest_dca_strategy [] daily_investment = Inl IndexError
   \<and> backtest_ath_dip_strategy [] dip_percentage daily_budget = Inl IndexError
   \<and> backtest_moving_average_strategy [] ma_window daily_budget = Inl IndexError"
  by (simp add: backtest_dca_strategy_def backtest_ath_dip_strategy_def
      backtest_moving_average_strategy_def calculate_moving_average_def last_item_def)

text \<open>
  C1 (as the spec states it) fails: the run on the empty series does not return a
  zero-valued summary.
\<close>

theorem empty_series_counterexample:
  "backtest_dca_strategy [] 10 = Inl IndexError
   \<and> backtest_ath_dip_strategy [] 20 1 = Inl IndexError
   \<and> backtest_moving_average_strategy [] 20 1 = Inl IndexError"
  by (simp add: backtest_dca_strategy_def backtest_ath_dip_strategy_def
      backtest_moving_average_strategy_def calculate_moving_average_def last_item_def)


section \<open>Non-positive closes\<close>

text \<open>
  C2 (as the code has it). A close of exactly 0 on a day on which the strategy divides
  by it makes the run raise \<^verbatim>\<open>ZeroDivisionError\<close>, and no summary is returned: for
  the fixed-amount strategy any bar closing at 0; for the dip strategy a bar closing at 0
  on which the deployment condition holds in the state reached after the bars before it;
  for the moving-average strategy likewise.
\<close>

theorem zero_close_raises:
  "((\<exists>b\<in>set data. close b = 0) \<longrightarrow>
      backtest_dca_strategy data daily_investment = Inl ZeroDivisionError)
   \<and> (n < length data
       \<and> for_each (ath_step dip_percentage daily_budget) (take n data) ath_init = Inr s2
       \<and> close (data ! n) = 0
       \<and> close (data ! n)
           \<le> max (as_all_time_high s2) (high (data ! n)) * (1 - dip_percentage / 100)
       \<and> 0 < max (as_all_time_high s2) (high (data ! n))
       \<and> 0 < as_accumulated_cash s2 + daily_budget \<longrightarrow>
      backtest_ath_dip_strategy data dip_percentage daily_budget = Inl ZeroDivisionError)
   \<and> (n < length data
       \<and> calculate_moving_average data ma_window = Inr moving_averages
       \<and> for_each (ma_step daily_budget moving_averages) (take n (enumerate 0 data)) ma_init
            = Inr s3
       \<and> close (data ! n) = 0
       \<and> moving_averages ! n = Some average
       \<and> close (data ! n) < average
       \<and> 0 < ms_accumulated_cash s3 + daily_budget \<longrightarrow>
      backtest_moving_average_strategy data ma_window daily_budget = Inl ZeroDivisionError)"
proof (intro conjI impI)
  assume "\<exists>b\<in>set data. close b = 0"
  from dca_loop_zero_close [OF this]
  show "backtest_dca_strategy data daily_investment = Inl ZeroDivisionError"
    by (simp add: backtest_dca_strategy_def)
next
  assume a: "n < length data
       \<and> for_each (ath_step dip_percentage daily_budget) (take n data) ath_init = Inr s2
       \<and> close (data ! n) = 0
       \<and> close (data ! n)
           \<le> max (as_all_time_high s2) (high (data ! n)) * (1 - dip_percentage / 100)
       \<and> 0 < max (as_all_time_high s2) (high (data ! n))
       \<and> 0 < as_accumulated_cash s2 + daily_budget"
  then have "ath_step dip_percentage daily_budget s2 (data ! n) = Inl ZeroDivisionError"
    by (intro ath_step_zero_close) simp_all
  with a have "for_each (ath_step dip_percentage daily_budget) data ath_init = Inl ZeroDivisionError"
    by (intro for_each_raises [where n = n and s = s2]) simp_all
  then show "backtest_ath_dip_strategy data dip_percentage daily_budget = Inl ZeroDivisionError"
    by (simp add: backtest_ath_dip_strategy_def)
next
  assume a: "n < length data
       \<and> calculate_moving_average data ma_window = Inr moving_averages
       \<and> for_each (ma_step daily_budget moving_averages) (take n (enumerate 0 data)) ma_init
            = Inr s3
       \<and> close (data ! n) = 0
       \<and> moving_averages ! n = Some average
       \<and> close (data ! n) < average
       \<and> 0 < ms_accumulated_cash s3 + daily_budget"
  then have len: "n < length moving_averages"
    using calculate_moving_average_length [of data ma_window moving_averages] by simp
  from a have "0 < average" by simp
  with a len have "ma_step daily_budget moving_averages s3 (n, data ! n) = Inl ZeroDivisionError"
    by (intro ma_step_zero_close [where avg = average]) simp_all
  moreover from a have "enumerate 0 data ! n = (n, data ! n)"
    by (simp add: nth_enumerate_eq)
  ultimately have "for_each (ma_step daily_budget moving_averages) (enumerate 0 data) ma_init
      = Inl ZeroDivisionError"
    using a by (intro for_each_raises [where n = n and s = s3]) simp_all
  with a show "backtest_moving_average_strategy data ma_window daily_budget = Inl ZeroDivisionError"
    by (simp add: backtest_moving_average_strategy_def)
qed

theorem zero_close_raises_witness:
  "zero_close_bars ! Suc 0 \<in> set zero_close_bars \<and> close (zero_close_bars ! Suc 0) = 0
   \<and> backtest_dca_strategy zero_close_bars 10 = Inl ZeroDivisionError
   \<and> Suc 0 < length zero_close_bars
   \<and> for_each (ath_step 20 1) (take (Suc 0) zero_close_bars) ath_init = Inr sample_ath_first
   \<and> close (zero_close_bars ! Suc 0)
       \<le> max (as_all_time_high sample_ath_first) (high (zero_close_bars ! Suc 0)) * (1 - 20 / 100)
   \<and> 0 < max (as_all_time_high sample_ath_first) (high (zero_close_bars ! Suc 0))
   \<and> 0 < as_accumulated_cash sample_ath_first + 1
   \<and> backtest_ath_dip_strategy zero_close_bars 20 1 = Inl ZeroDivisionError
   \<and> calculate_moving_average zero_close_bars 2 = Inr [None, Some 25]
   \<and> for_each (ma_step 1 [None, Some 25]) (take (Suc 0) (enumerate 0 zero_close_bars)) ma_init
       = Inr sample_ma_first
   \<and> [None, Some 25] ! Suc 0 = Some 25
   \<and> close (zero_close_bars ! Suc 0) < 25
   \<and> 0 < ms_accumulated_cash sample_ma_first + 1
   \<and> backtest_moving_average_strategy zero_close_bars 2 1 = Inl ZeroDivisionError"
proof -
  have facts: "zero_close_bars ! Suc 0 \<in> set zero_close_bars" "close (zero_close_bars ! Suc 0) = 0"
    "Suc 0 < length zero_close_bars"
    "close (zero_close_bars ! Suc 0)
       \<le> max (as_all_time_high sample_ath_first) (high (zero_close_bars ! Suc 0)) * (1 - 20 / 100)"
    "0 < max (as_all_time_high sample_ath_first) (high (zero_close_bars ! Suc 0))"
    "0 < as_accumulated_cash sample_ath_first + 1"
    "[None, Some (25::real)] ! Suc 0 = Some 25"
    "close (zero_close_bars ! Suc 0) < 25"
    "0 < ms_accumulated_cash sample_ma_first + 1"
    by (simp_all add: zero_close_bars_def mk_bar_def sample_ath_first_def sample_ma_first_def)
  from facts(1,2) have ex: "\<exists>b\<in>set zero_close_bars. close b = 0" by blast
  from zero_close_raises [where data = zero_close_bars and daily_investment = 10 and n = "Suc 0"
      and dip_percentage = 20 and daily_budget = 1 and ?s2.0 = sample_ath_first
      and ma_window = 2 and moving_averages = "[None, Some 25]" and ?s3.0 = sample_ma_first
      and average = 25]
    ex facts zero_close_ath_prefix zero_close_moving_averages zero_close_ma_prefix
  show ?thesis by simp
qed

text \<open>
  C2 (as the spec states it) fails on negative closes: the division is carried out and
  the run returns a summary, with a negative holding.
\<close>

theorem negative_close_counterexample:
  "backtest_dca_strategy [mk_bar 1 100 (- 100)] 10 =
     Inr \<lparr>dr_total_invested = 10, dr_final_value = 10, dr_total_return = 0,
          dr_return_percentage = 0, dr_total_bitcoin = - (1 / 10),
          dr_average_purchase_price = 0, dr_final_bitcoin_price = - 100,
          dr_daily_investment = 10, dr_number_of_days = 1,
          dr_purchases =
            [\<lparr>dp_date = 1, dp_price = - 100, dp_amount_invested = 10,
              dp_bitcoin_purchased = - (1 / 10), dp_total_bitcoin = - (1 / 10),
              dp_total_invested = 10\<rparr>],
          dr_portfolio_values = [10]\<rparr>
   \<and> map_sum id ar_total_bitcoin (backtest_ath_dip_strategy [mk_bar 1 100 (- 50)] 20 1)
       = Inr (- (1 / 50))"
  by (simp add: backtest_dca_strategy_def backtest_ath_dip_strategy_def run_defs)


section \<open>Total return\<close>

text \<open>
  C3 (as the code has it). In every run that returns, the final value is the idle cash
  plus the holding valued at the last bar's close (the fixed-amount strategy holds no
  idle cash). The fixed-amount and moving-average strategies report
  \<open>total_return = final_value - total_invested\<close>; the dip strategy also subtracts the
  idle cash: \<open>total_return = final_value - total_invested - accumulated_cash\<close>.
\<close>

theorem total_return_by_strategy:
  "(backtest_dca_strategy data daily_investment = Inr r1 \<longrightarrow>
      dr_final_value r1 = dr_total_bitcoin r1 * close (last data)
      \<and> dr_total_return r1 = dr_final_value r1 - dr_total_invested r1)
   \<and> (backtest_moving_average_strategy data ma_window daily_budget = Inr r3 \<longrightarrow>
      mr_final_value r3 = mr_accumulated_cash r3 + mr_bitcoin_held r3 * close (last data)
      \<and> mr_total_return r3 = mr_final_value r3 - mr_total_invested r3)
   \<and> (backtest_ath_dip_strategy data dip_percentage daily_budget = Inr r2 \<longrightarrow>
      ar_final_value r2 = ar_accumulated_cash r2 + ar_total_bitcoin r2 * close (last data)
      \<and> ar_total_return r2
          = ar_final_value r2 - ar_total_invested r2 - ar_accumulated_cash r2)"
proof (intro conjI impI)
  {
    assume "backtest_dca_strategy data daily_investment = Inr r1"
    then obtain s :: dca_state where s: "dr_total_invested r1 = ds_total_invested s"
      "dr_total_bitcoin r1 = ds_total_bitcoin s"
      "dr_final_value r1 = ds_total_bitcoin s * close (last data)"
      "dr_total_return r1 = dr_final_value r1 - ds_total_invested s"
      by (rule backtest_dca_Inr) blast
    then show "dr_final_value r1 = dr_total_bitcoin r1 * close (last data)"
      and "dr_total_return r1 = dr_final_value r1 - dr_total_invested r1"
      by simp_all
  }
  {
    assume "backtest_moving_average_strategy data ma_window daily_budget = Inr r3"
    then obtain s :: ma_state where s: "mr_total_invested r3 = ms_total_invested s"
      "mr_bitcoin_held r3 = ms_bitcoin_held s"
      "mr_accumulated_cash r3 = ms_accumulated_cash s"
      "mr_final_value r3 = ms_accumulated_cash s + ms_bitcoin_held s * close (last data)"
      "mr_total_return r3 = mr_final_value r3 - ms_total_invested s"
      by (rule backtest_ma_Inr) blast
    then show "mr_final_value r3 = mr_accumulated_cash r3 + mr_bitcoin_held r3 * close (last data)"
      and "mr_total_return r3 = mr_final_value r3 - mr_total_invested r3"
      by simp_all
  }
  {
    assume "backtest_ath_dip_strategy data dip_percentage daily_budget = Inr r2"
    then obtain s :: ath_state where s: "ar_total_invested r2 = as_total_invested s"
      "ar_total_bitcoin r2 = as_total_bitcoin s"
      "ar_accumulated_cash r2 = as_accumulated_cash s"
      "ar_final_value r2 = as_accumulated_cash s + as_total_bitcoin s * close (last data)"
      "ar_total_return r2 = ar_final_value r2 - as_total_invested s - as_accumulated_cash s"
      by (rule backtest_ath_Inr) blast
    then show "ar_final_value r2 = ar_accumulated_cash r2 + ar_total_bitcoin r2 * close (last data)"
      and "ar_total_return r2
          = ar_final_value r2 - ar_total_invested r2 - ar_accumulated_cash r2"
      by simp_all
  }
qed

theorem total_return_by_strategy_witness:
  "backtest_dca_strategy sample_bars 10 = Inr sample_dca_result
   \<and> dr_final_value sample_dca_result
        = dr_total_bitcoin sample_dca_result * close (last sample_bars)
   \<and> dr_total_return sample_dca_result
        = dr_final_value sample_dca_result - dr_total_invested sample_dca_result
   \<and> backtest_moving_average_strategy sample_bars 2 1 = Inr sample_ma_result
   \<and> mr_final_value sample_ma_result
        = mr_accumulated_cash sample_ma_result
          + mr_bitcoin_held sample_ma_result * close (last sample_bars)
   \<and> mr_total_return sample_ma_result
        = mr_final_value sample_ma_result - mr_total_invested sample_ma_result
   \<and> backtest_ath_dip_strategy sample_bars 20 1 = Inr sample_ath_result
   \<and> ar_final_value sample_ath_result
        = ar_accumulated_cash sample_ath_result
          + ar_total_bitcoin sample_ath_result * close (last sample_bars)
   \<and> ar_total_return sample_ath_result
        = ar_final_value sample_ath_result - ar_total_invested sample_ath_result
          - ar_accumulated_cash sample_ath_result"
  using total_return_by_strategy [of sample_bars 10 sample_dca_result 2 1 sample_ma_result
      20 sample_ath_result] sample_dca_run sample_ath_run sample_ma_run
  by blast

text \<open>
  C3 (as the spec states it) fails for the dip strategy: on one bar with high and close
  100 nothing is bought, one unit of cash stays idle, the final value is 1 and the total
  invested 0, yet the reported total return is 0, not 1.
\<close>

theorem total_return_counterexample:
  "backtest_ath_dip_strategy [mk_bar 1 100 100] 20 1 =
     Inr \<lparr>ar_dip_percentage = 20, ar_daily_budget = 1, ar_total_invested = 0,
          ar_final_value = 1, ar_total_return = 0, ar_return_percentage = 0,
          ar_total_bitcoin = 0, ar_average_purchase_price = 0,
          ar_final_bitcoin_price = 100, ar_final_ath = 100, ar_accumulated_cash = 1,
          ar_number_of_purchases = 0, ar_number_of_days = 1, ar_purchases = [],
          ar_portfolio_values =
            [\<lparr>av_date = 1, av_price = 100, av_ath = 100, av_portfolio_value = 1,
              av_total_invested = 0, av_accumulated_cash = 1,
              av_unrealized_return = 0\<rparr>]\<rparr>
   \<and> ar_total_return (projr (backtest_ath_dip_strategy [mk_bar 1 100 100] 20 1))
       \<noteq> ar_final_value (projr (backtest_ath_dip_strategy [mk_bar 1 100 100] 20 1))
         - ar_total_invested (projr (backtest_ath_dip_strategy [mk_bar 1 100 100] 20 1))"
  by (simp add: backtest_ath_dip_strategy_def run_defs)


section \<open>Conservation of invested capital\<close>

text \<open>
  C4. After every processed bar (the state reached on any prefix \<open>take n data\<close> of the
  series), in each of the three strategies, the total invested is the sum of the cash
  amounts of the events emitted so far, and the total holding is the sum of the units
  they acquired.
\<close>

theorem conservation_after_every_bar:
  "(for_each (dca_step daily_investment) (take n data) dca_init = Inr s1 \<longrightarrow>
      ds_total_invested s1 = sum_list (map dp_amount_invested (ds_purchases s1))
      \<and> ds_total_bitcoin s1 = sum_list (map dp_bitcoin_purchased (ds_purchases s1)))
   \<and> (for_each (ath_step dip_percentage daily_budget) (take n data) ath_init = Inr s2 \<longrightarrow>
      as_total_invested s2 = sum_list (map ap_amount_invested (as_purchases s2))
      \<and> as_total_bitcoin s2 = sum_list (map ap_bitcoin_purchased (as_purchases s2)))
   \<and> (for_each (ma_step daily_budget moving_averages) (take n (enumerate 0 data)) ma_init = Inr s3 \<longrightarrow>
      ms_total_invested s3 = sum_list (map mt_cash_used (ms_trades s3))
      \<and> ms_bitcoin_held s3 = sum_list (map mt_amount (ms_trades s3)))"
proof (intro conjI impI)
  assume a: "for_each (dca_step daily_investment) (take n data) dca_init = Inr s1"
  have "dca_conserved dca_init" by (simp add: dca_conserved_def dca_init_def)
  from for_each_invariant [where P = "\<lambda>_. dca_conserved", OF this _ a]
  have "dca_conserved s1" by (blast intro: dca_step_conserved)
  then show "ds_total_invested s1 = sum_list (map dp_amount_invested (ds_purchases s1))"
    and "ds_total_bitcoin s1 = sum_list (map dp_bitcoin_purchased (ds_purchases s1))"
    by (simp_all add: dca_conserved_def)
next
  assume a: "for_each (ath_step dip_percentage daily_budget) (take n data) ath_init = Inr s2"
  have "ath_conserved ath_init" by (simp add: ath_conserved_def ath_init_def)
  from for_each_invariant [where P = "\<lambda>_. ath_conserved", OF this _ a]
  have "ath_conserved s2" by (blast intro: ath_step_conserved)
  then show "as_total_invested s2 = sum_list (map ap_amount_invested (as_purchases s2))"
    and "as_total_bitcoin s2 = sum_list (map ap_bitcoin_purchased (as_purchases s2))"
    by (simp_all add: ath_conserved_def)
next
  assume a: "for_each (ma_step daily_budget moving_averages) (take n (enumerate 0 data)) ma_init = Inr s3"
  have "ma_conserved ma_init" by (simp add: ma_conserved_def ma_init_def)
  from for_each_invariant [where P = "\<lambda>_. ma_conserved", OF this _ a]
  have "ma_conserved s3" by (blast intro: ma_step_conserved)
  then show "ms_total_invested s3 = sum_list (map mt_cash_used (ms_trades s3))"
    and "ms_bitcoin_held s3 = sum_list (map mt_amount (ms_trades s3))"
    by (simp_all add: ma_conserved_def)
qed

theorem conservation_after_every_bar_witness:
  "for_each (dca_step 10) (take 2 sample_bars) dca_init = Inr sample_dca_state
   \<and> ds_total_invested sample_dca_state
       = sum_list (map dp_amount_invested (ds_purchases sample_dca_state))
   \<and> ds_total_bitcoin sample_dca_state
       = sum_list (map dp_bitcoin_purchased (ds_purchases sample_dca_state))
   \<and> for_each (ath_step 20 1) (take 2 sample_bars) ath_init = Inr sample_ath_state
   \<and> as_total_invested sample_ath_state
       = sum_list (map ap_amount_invested (as_purchases sample_ath_state))
   \<and> as_total_bitcoin sample_ath_state
       = sum_list (map ap_bitcoin_purchased (as_purchases sample_ath_state))
   \<and> for_each (ma_step 1 [None, Some 45]) (take 2 (enumerate 0 sample_bars)) ma_init
       = Inr sample_ma_state
   \<and> ms_total_invested sample_ma_state
       = sum_list (map mt_cash_used (ms_trades sample_ma_state))
   \<and> ms_bitcoin_held sample_ma_state
       = sum_list (map mt_amount (ms_trades sample_ma_state))"
proof -
  have len: "length sample_bars = 2" by (simp add: sample_bars_def)
  have h1: "for_each (dca_step 10) (take 2 sample_bars) dca_init = Inr sample_dca_state"
    using sample_dca_loop len by simp
  have h2: "for_each (ath_step 20 1) (take 2 sample_bars) ath_init = Inr sample_ath_state"
    using sample_ath_loop len by simp
  have h3: "for_each (ma_step 1 [None, Some 45]) (take 2 (enumerate 0 sample_bars)) ma_init
      = Inr sample_ma_state"
    using sample_ma_loop len by simp
  from conservation_after_every_bar [of 10 2 sample_bars sample_dca_state 20 1
      sample_ath_state "[None, Some 45]" sample_ma_state] h1 h2 h3
  show ?thesis by blast
qed


section \<open>One day of the dip strategy\<close>

text \<open>
  C5. Whenever the dip strategy processes a bar, the running extreme becomes the maximum
  of its old value and the bar's high, and the threshold is that updated extreme times
  (1 - dip_percentage/100). The whole accumulated cash (after the day's accrual) is
  deployed in one event if and only if the close is at most the threshold, the extreme
  is positive and the cash is positive, and then the cash is exactly 0; otherwise no
  event is emitted and the cash stays as accrued.
\<close>

theorem dip_step_policy:
  assumes "ath_step dip_percentage daily_budget s day_data = Inr s'"
  shows "let running_extreme = max (as_all_time_high s) (high day_data);
             threshold = running_extreme * (1 - dip_percentage / 100);
             cash = as_accumulated_cash s + daily_budget
         in as_all_time_high s' = running_extreme
            \<and> (if close day_data \<le> threshold \<and> 0 < running_extreme \<and> 0 < cash
               then (\<exists>e. as_purchases s' = as_purchases s @ [e]
                         \<and> ap_amount_invested e = cash
                         \<and> ap_price e = close day_data
                         \<and> ap_bitcoin_purchased e = cash / close day_data
                         \<and> ap_all_time_high e = running_extreme)
                    \<and> as_total_invested s' = as_total_invested s + cash
                    \<and> as_total_bitcoin s' = as_total_bitcoin s + cash / close day_data
                    \<and> as_accumulated_cash s' = 0
               else as_purchases s' = as_purchases s
                    \<and> as_total_invested s' = as_total_invested s
                    \<and> as_total_bitcoin s' = as_total_bitcoin s
                    \<and> as_accumulated_cash s' = cash)"
  using assms
  by (auto simp: ath_step_def ath_record_value_def Let_def bindE_eq_Inr truediv_eq_Inr
      split: if_splits)

theorem dip_step_policy_witness:
  "ath_step 20 1 ath_init (mk_bar 1 100 50) = Inr sample_ath_first
   \<and> as_all_time_high sample_ath_first
       = max (as_all_time_high ath_init) (high (mk_bar 1 100 50))
   \<and> close (mk_bar 1 100 50)
       \<le> max (as_all_time_high ath_init) (high (mk_bar 1 100 50)) * (1 - 20 / 100)
   \<and> as_total_invested sample_ath_first
       = as_total_invested ath_init + (as_accumulated_cash ath_init + 1)
   \<and> as_accumulated_cash sample_ath_first = 0"
  using dip_step_policy [OF sample_ath_first_step] sample_ath_first_step
  by (simp add: Let_def ath_init_def mk_bar_def split: if_splits)


section \<open>One day of the moving-average strategy\<close>

text \<open>
  C6. In a run of the moving-average strategy with a window W of at least 1, let
  \<open>s\<close> be the state after the first \<open>n\<close> bars and \<open>s'\<close> the state after bar
  \<open>n\<close> (0-based). The average of index \<open>n\<close> does not exist before index W - 1, and
  from there on it is the arithmetic mean of the W most recent closes, today's included.
  Before index W - 1 no event is emitted and the cash accrues; from index W - 1 on the
  whole accumulated cash is deployed in one event if and only if the close is strictly
  below the average and the cash is positive, and otherwise the cash accrues.
\<close>

theorem moving_average_policy:
  assumes "1 \<le> ma_window" and "n < length data"
    and "calculate_moving_average data ma_window = Inr moving_averages"
    and "for_each (ma_step daily_budget moving_averages) (take n (enumerate 0 data)) ma_init
           = Inr s"
    and "for_each (ma_step daily_budget moving_averages) (take (Suc n) (enumerate 0 data)) ma_init
           = Inr s'"
  shows "let cash = ms_accumulated_cash s + daily_budget;
             price = close (data ! n);
             average = sum_list (map close (take (nat ma_window) (drop (Suc n - nat ma_window) data)))
                         / real_of_int ma_window
         in moving_averages ! n = (if int n < ma_window - 1 then None else Some average)
            \<and> (if ma_window - 1 \<le> int n \<and> price < average \<and> 0 < cash
               then ms_trades s' = ms_trades s @
                      [\<lparr>mt_date = date (data ! n), mt_action = ''BUY'', mt_price = price,
                        mt_amount = cash / price, mt_cash_used = cash\<rparr>]
                    \<and> ms_total_invested s' = ms_total_invested s + cash
                    \<and> ms_bitcoin_held s' = ms_bitcoin_held s + cash / price
                    \<and> ms_accumulated_cash s' = 0
               else ms_trades s' = ms_trades s
                    \<and> ms_total_invested s' = ms_total_invested s
                    \<and> ms_bitcoin_held s' = ms_bitcoin_held s
                    \<and> ms_accumulated_cash s' = cash)"
proof -
  from assms(1) have "ma_window \<noteq> 0" by simp
  from calculate_moving_average_Inr [OF this, of data] assms(3)
  have "moving_averages = map (moving_average_at data ma_window) [0..<length data]" by simp
  with assms(2) have mas: "moving_averages ! n = moving_average_at data ma_window n"
    and len: "n < length moving_averages" by simp_all
  have avg: "moving_average_at data ma_window n
      = (if int n < ma_window - 1 then None
         else Some (sum_list (map close (take (nat ma_window) (drop (Suc n - nat ma_window) data)))
                     / real_of_int ma_window))"
    using window_sum_take_drop [OF assms(1) _ assms(2)]
    by (simp add: moving_average_at_def)
  from ma_step_prefix [OF assms(2,4)] assms(5)
  have step: "ma_step daily_budget moving_averages s (n, data ! n) = Inr s'" by simp
  show ?thesis
  proof (cases "int n < ma_window - 1")
    case True
    with step mas avg len show ?thesis
      by (auto simp: ma_step_def Let_def)
  next
    case False
    with step mas avg len show ?thesis
      by (auto simp: ma_step_def Let_def bindE_eq_Inr truediv_eq_Inr split: if_splits)
  qed
qed

theorem moving_average_policy_witness:
  "(1::int) \<le> 2 \<and> Suc 0 < length sample_bars
   \<and> calculate_moving_average sample_bars 2 = Inr [None, Some 45]
   \<and> for_each (ma_step 1 [None, Some 45]) (take 0 (enumerate 0 sample_bars)) ma_init
       = Inr ma_init
   \<and> for_each (ma_step 1 [None, Some 45]) (take (Suc 0) (enumerate 0 sample_bars)) ma_init
       = Inr sample_ma_first
   \<and> for_each (ma_step 1 [None, Some 45]) (take (Suc (Suc 0)) (enumerate 0 sample_bars)) ma_init
       = Inr sample_ma_state
   \<and> ms_trades sample_ma_first = ms_trades ma_init
   \<and> ms_accumulated_cash sample_ma_first = ms_accumulated_cash ma_init + 1
   \<and> [None, Some 45] ! Suc 0
       = Some (sum_list (map close (take (nat 2) (drop (Suc (Suc 0) - nat 2) sample_bars)))
               / real_of_int 2)
   \<and> close (sample_bars ! Suc 0) < 45
   \<and> ms_trades sample_ma_state = ms_trades sample_ma_first @
        [\<lparr>mt_date = 2, mt_action = ''BUY'', mt_price = 40, mt_amount = 2 / 40,
          mt_cash_used = 2\<rparr>]
   \<and> ms_total_invested sample_ma_state = ms_total_invested sample_ma_first + 2
   \<and> ms_accumulated_cash sample_ma_state = 0"
proof -
  have w: "(1::int) \<le> 2" by simp
  have n0: "0 < length sample_bars" and n1: "Suc 0 < length sample_bars"
    by (simp_all add: sample_bars_def)
  have vals: "close (sample_bars ! Suc 0) = 40" "date (sample_bars ! Suc 0) = 2"
    "ms_accumulated_cash sample_ma_first = 1" "ms_accumulated_cash ma_init = 0"
    by (simp_all add: sample_bars_def mk_bar_def sample_ma_first_def ma_init_def)
  from moving_average_policy [OF w n0 sample_moving_averages sample_ma_prefixes(1,2)]
  have a: "ms_trades sample_ma_first = ms_trades ma_init
           \<and> ms_accumulated_cash sample_ma_first = ms_accumulated_cash ma_init + 1"
    by (simp add: Let_def)
  from moving_average_policy [OF w n1 sample_moving_averages sample_ma_prefixes(2,3)] vals
  have b: "[None, Some 45] ! Suc 0
       = Some (sum_list (map close (take (nat 2) (drop (Suc (Suc 0) - nat 2) sample_bars)))
               / real_of_int 2)
     \<and> ms_trades sample_ma_state = ms_trades sample_ma_first @
        [\<lparr>mt_date = 2, mt_action = ''BUY'', mt_price = 40, mt_amount = 2 / 40,
          mt_cash_used = 2\<rparr>]
     \<and> ms_total_invested sample_ma_state = ms_total_invested sample_ma_first + 2
     \<and> ms_accumulated_cash sample_ma_state = 0"
    by (simp add: Let_def sample_bars_def mk_bar_def split: if_splits)
  from a b w n1 vals sample_moving_averages sample_ma_prefixes show ?thesis by simp
qed


section \<open>One valuation per bar, events in order\<close>




section \<open>Guards of the summary metrics\<close>

text \<open>
  C8. On bars with positive closes and a non-negative daily investment, every summary
  returned reports a return percentage of 0 when the total invested is 0 and of
  total_return / total_invested * 100 otherwise, and an average purchase price of 0 when
  the total holding is 0 and of total_invested / total_holding otherwise (the
  moving-average summary has no average purchase price). The two guarded divisions
  return 0 on a zero divisor and never raise, and no run raises a division by zero
  (for the moving average, with a window other than 0).
\<close>

theorem metrics_guards:
  assumes "\<forall>b\<in>set data. 0 < close b" and "0 \<le> daily_investment"
  shows "(backtest_dca_strategy data daily_investment = Inr r1 \<longrightarrow>
            dr_return_percentage r1
              = (if dr_total_invested r1 = 0 then 0
                 else dr_total_return r1 / dr_total_invested r1 * 100)
            \<and> dr_average_purchase_price r1
              = (if dr_total_bitcoin r1 = 0 then 0
                 else dr_total_invested r1 / dr_total_bitcoin r1))
         \<and> (backtest_ath_dip_strategy data dip_percentage daily_budget = Inr r2 \<longrightarrow>
            ar_return_percentage r2
              = (if ar_total_invested r2 = 0 then 0
                 else ar_total_return r2 / ar_total_invested r2 * 100)
            \<and> ar_average_purchase_price r2
              = (if ar_total_bitcoin r2 = 0 then 0
                 else ar_total_invested r2 / ar_total_bitcoin r2))
         \<and> (backtest_moving_average_strategy data ma_window daily_budget = Inr r3 \<longrightarrow>
            mr_return_percentage r3
              = (if mr_total_invested r3 = 0 then 0
                 else mr_total_return r3 / mr_total_invested r3 * 100))
         \<and> return_percentage_of total_return 0 = Inr 0
         \<and> avg_purchase_price_of total_invested 0 = Inr 0
         \<and> return_percentage_of total_return total_invested \<noteq> Inl ZeroDivisionError
         \<and> avg_purchase_price_of total_invested total_holding \<noteq> Inl ZeroDivisionError
         \<and> backtest_dca_strategy data daily_investment \<noteq> Inl ZeroDivisionError
         \<and> backtest_ath_dip_strategy data dip_percentage daily_budget \<noteq> Inl ZeroDivisionError
         \<and> (ma_window \<noteq> 0 \<longrightarrow>
              backtest_moving_average_strategy data ma_window daily_budget
                \<noteq> Inl ZeroDivisionError)"
proof (intro conjI impI)
  from assms(1) have nz: "\<forall>b\<in>set data. close b \<noteq> 0" by auto
  {
    assume "backtest_dca_strategy data daily_investment = Inr r1"
    then obtain s where s: "for_each (dca_step daily_investment) data dca_init = Inr s"
      "dr_total_invested r1 = ds_total_invested s" "dr_total_bitcoin r1 = ds_total_bitcoin s"
      "return_percentage_of (dr_total_return r1) (ds_total_invested s) = Inr (dr_return_percentage r1)"
      "avg_purchase_price_of (ds_total_invested s) (ds_total_bitcoin s) = Inr (dr_average_purchase_price r1)"
      by (rule backtest_dca_Inr) blast
    from dca_loop_nonneg [OF s(1) assms(2,1)]
    have nn: "0 \<le> ds_total_invested s" "0 \<le> ds_total_bitcoin s" .
    from return_percentage_of_Inr [OF nn(1) s(4)] s(2)
    show "dr_return_percentage r1
              = (if dr_total_invested r1 = 0 then 0
                 else dr_total_return r1 / dr_total_invested r1 * 100)" by simp
    from avg_purchase_price_of_Inr [OF nn(2) s(5)] s(2,3)
    show "dr_average_purchase_price r1
              = (if dr_total_bitcoin r1 = 0 then 0
                 else dr_total_invested r1 / dr_total_bitcoin r1)" by simp
  }
  {
    assume "backtest_ath_dip_strategy data dip_percentage daily_budget = Inr r2"
    then obtain s where s: "for_each (ath_step dip_percentage daily_budget) data ath_init = Inr s"
      "ar_total_invested r2 = as_total_invested s" "ar_total_bitcoin r2 = as_total_bitcoin s"
      "return_percentage_of (ar_total_return r2) (as_total_invested s) = Inr (ar_return_percentage r2)"
      "avg_purchase_price_of (as_total_invested s) (as_total_bitcoin s) = Inr (ar_average_purchase_price r2)"
      by (rule backtest_ath_Inr) blast
    from ath_loop_nonneg [OF s(1)] assms(1)
    have nn: "0 \<le> as_total_invested s" "0 \<le> as_total_bitcoin s" by blast+
    from return_percentage_of_Inr [OF nn(1) s(4)] s(2)
    show "ar_return_percentage r2
              = (if ar_total_invested r2 = 0 then 0
                 else ar_total_return r2 / ar_total_invested r2 * 100)" by simp
    from avg_purchase_price_of_Inr [OF nn(2) s(5)] s(2,3)
    show "ar_average_purchase_price r2
              = (if ar_total_bitcoin r2 = 0 then 0
                 else ar_total_invested r2 / ar_total_bitcoin r2)" by simp
  }
  {
    assume "backtest_moving_average_strategy data ma_window daily_budget = Inr r3"
    then obtain mas s where s: "for_each (ma_step daily_budget mas) (enumerate 0 data) ma_init = Inr s"
      "mr_total_invested r3 = ms_total_invested s"
      "return_percentage_of (mr_total_return r3) (ms_total_invested s) = Inr (mr_return_percentage r3)"
      by (rule backtest_ma_Inr) blast
    from ma_loop_nonneg [OF s(1)] have nn: "0 \<le> ms_total_invested s" .
    from return_percentage_of_Inr [OF nn s(3)] s(2)
    show "mr_return_percentage r3
              = (if mr_total_invested r3 = 0 then 0
                 else mr_total_return r3 / mr_total_invested r3 * 100)" by simp
  }
  show "return_percentage_of total_return 0 = Inr 0"
    by (simp add: return_percentage_of_def)
  show "avg_purchase_price_of total_invested 0 = Inr 0"
    by (simp add: avg_purchase_price_of_def)
  show "return_percentage_of total_return total_invested \<noteq> Inl ZeroDivisionError"
    using return_percentage_of_total [of total_return total_invested] by auto
  show "avg_purchase_price_of total_invested total_holding \<noteq> Inl ZeroDivisionError"
    using avg_purchase_price_of_total [of total_invested total_holding] by auto
  show "backtest_dca_strategy data daily_investment \<noteq> Inl ZeroDivisionError"
  proof (cases "data = []")
    case True
    then show ?thesis by (simp add: backtest_dca_strategy_def last_item_def)
  next
    case False
    from backtest_dca_total [OF False nz, of daily_investment] show ?thesis by auto
  qed
  show "backtest_ath_dip_strategy data dip_percentage daily_budget \<noteq> Inl ZeroDivisionError"
  proof (cases "data = []")
    case True
    then show ?thesis by (simp add: backtest_ath_dip_strategy_def last_item_def)
  next
    case False
    from backtest_ath_total [OF False nz, of dip_percentage daily_budget] show ?thesis by auto
  qed
  {
    assume w: "ma_window \<noteq> 0"
    show "backtest_moving_average_strategy data ma_window daily_budget \<noteq> Inl ZeroDivisionError"
    proof (cases "data = []")
      case True
      then show ?thesis
        by (simp add: backtest_moving_average_strategy_def calculate_moving_average_def last_item_def)
    next
      case False
      from backtest_ma_total [OF False nz w, of daily_budget] show ?thesis by auto
    qed
  }
qed

theorem metrics_guards_witness:
  "0 < close (sample_bars ! 0) \<and> 0 < close (sample_bars ! 1) \<and> length sample_bars = 2
   \<and> (0::real) \<le> 10
   \<and> backtest_dca_strategy sample_bars 10 = Inr sample_dca_result
   \<and> dr_total_invested sample_dca_result \<noteq> 0
   \<and> dr_return_percentage sample_dca_result
       = dr_total_return sample_dca_result / dr_total_invested sample_dca_result * 100
   \<and> dr_total_bitcoin sample_dca_result \<noteq> 0
   \<and> dr_average_purchase_price sample_dca_result
       = dr_total_invested sample_dca_result / dr_total_bitcoin sample_dca_result
   \<and> backtest_ath_dip_strategy sample_bars 20 1 = Inr sample_ath_result
   \<and> ar_total_invested sample_ath_result \<noteq> 0
   \<and> ar_return_percentage sample_ath_result
       = ar_total_return sample_ath_result / ar_total_invested sample_ath_result * 100
   \<and> ar_total_bitcoin sample_ath_result \<noteq> 0
   \<and> ar_average_purchase_price sample_ath_result
       = ar_total_invested sample_ath_result / ar_total_bitcoin sample_ath_result
   \<and> backtest_moving_average_strategy sample_bars 2 1 = Inr sample_ma_result
   \<and> mr_total_invested sample_ma_result \<noteq> 0
   \<and> mr_return_percentage sample_ma_result
       = mr_total_return sample_ma_result / mr_total_invested sample_ma_result * 100"
proof -
  have pos: "\<forall>b\<in>set sample_bars. 0 < close b"
    by (simp add: sample_bars_def mk_bar_def)
  have di: "(0::real) \<le> 10" by simp
  have nz: "dr_total_invested sample_dca_result \<noteq> 0" "dr_total_bitcoin sample_dca_result \<noteq> 0"
    "ar_total_invested sample_ath_result \<noteq> 0" "ar_total_bitcoin sample_ath_result \<noteq> 0"
    "mr_total_invested sample_ma_result \<noteq> 0"
    by (simp_all add: sample_dca_result_def sample_ath_result_def sample_ma_result_def)
  have bars: "0 < close (sample_bars ! 0)" "0 < close (sample_bars ! 1)" "length sample_bars = 2"
    by (simp_all add: sample_bars_def mk_bar_def)
  from metrics_guards [OF pos di, where ?r1.0 = sample_dca_result and dip_percentage = 20
      and daily_budget = 1 and ?r2.0 = sample_ath_result and ma_window = 2
      and ?r3.0 = sample_ma_result]
    sample_dca_run sample_ath_run sample_ma_run nz bars
  show ?thesis by simp
qed


section \<open>The fixed-amount scenario\<close>

text \<open>
  C9. The fixed-amount strategy with a daily investment of 10 on three bars closing at
  100, 50 and 200 returns a summary with total invested 30, total holding
  10/100 + 10/50 + 10/200 = 0.35, final value 0.35 * 200 = 70 and total return 40.
\<close>

theorem fixed_amount_scenario:
  assumes "map close data = [100, 50, 200]"
  shows "\<exists>r. backtest_dca_strategy data 10 = Inr r
           \<and> dr_total_invested r = 30
           \<and> dr_total_bitcoin r = 10 / 100 + 10 / 50 + 10 / 200
           \<and> dr_total_bitcoin r = 35 / 100
           \<and> dr_final_value r = 35 / 100 * 200
           \<and> dr_final_value r = 70
           \<and> dr_total_return r = 40"
proof -
  from assms obtain a b c where d: "data = [a, b, c]" "close a = 100" "close b = 50" "close c = 200"
    by auto
  show ?thesis
    by (simp add: d backtest_dca_strategy_def dca_step_def dca_init_def truediv_def Let_def
        last_item_def return_percentage_of_def avg_purchase_price_of_def)
qed

theorem fixed_amount_scenario_witness:
  "map close [mk_bar 1 100 100, mk_bar 2 50 50, mk_bar 3 200 200] = [100, 50, 200]
   \<and> (\<exists>r. backtest_dca_strategy [mk_bar 1 100 100, mk_bar 2 50 50, mk_bar 3 200 200] 10 = Inr r
           \<and> dr_total_invested r = 30
           \<and> dr_total_bitcoin r = 10 / 100 + 10 / 50 + 10 / 200
           \<and> dr_total_bitcoin r = 35 / 100
           \<and> dr_final_value r = 35 / 100 * 200
           \<and> dr_final_value r = 70
           \<and> dr_total_return r = 40)"
proof -
  have h: "map close [mk_bar 1 100 100, mk_bar 2 50 50, mk_bar 3 200 200] = [100, 50, 200]"
    by (simp add: mk_bar_def)
  from fixed_amount_scenario [OF h] h show ?thesis by blast
qed


section \<open>Events of the dip strategy\<close>

text \<open>
  C10 (as the code has it). Every event in the summary of a run of the dip strategy
  records a strictly positive all-time high, a purchase price of at most the threshold
  the code computes from that all-time high, all_time_high * (1 - dip_percentage/100),
  and as dip percentage the computed value of (ATH - price)/ATH * 100, whatever the
  rounding of the arithmetic. In exact arithmetic that value is at least the configured
  dip_percentage.
\<close>

theorem dip_events_as_computed:
  "(backtest_ath_dip_strategy_rounded rnd data dip_percentage daily_budget = Inr r \<longrightarrow>
      (\<forall>e\<in>set (ar_purchases r).
         0 < ap_all_time_high e
         \<and> ap_price e \<le> rnd (ap_all_time_high e * rnd (1 - rnd (dip_percentage / 100)))
         \<and> ap_dip_percentage e
             = rnd (rnd (rnd (ap_all_time_high e - ap_price e) / ap_all_time_high e) * 100)))
   \<and> (backtest_ath_dip_strategy data dip_percentage daily_budget = Inr r' \<longrightarrow>
      (\<forall>e\<in>set (ar_purchases r').
         0 < ap_all_time_high e
         \<and> ap_price e \<le> (1 - dip_percentage / 100) * ap_all_time_high e
         \<and> ap_dip_percentage e = (ap_all_time_high e - ap_price e) / ap_all_time_high e * 100
         \<and> dip_percentage \<le> ap_dip_percentage e))"
proof (intro conjI impI)
  assume "backtest_ath_dip_strategy_rounded rnd data dip_percentage daily_budget = Inr r"
  then obtain s where s:
    "for_each (ath_step_rounded rnd dip_percentage daily_budget) data ath_init = Inr s"
    "ar_purchases r = as_purchases s"
    by (rule backtest_ath_rounded_Inr)
  have "ath_recorded rnd dip_percentage ath_init" by (simp add: ath_recorded_def ath_init_def)
  from for_each_invariant [where P = "\<lambda>_. ath_recorded rnd dip_percentage", OF this _ s(1)]
  have "ath_recorded rnd dip_percentage s" by (blast intro: ath_step_rounded_recorded)
  with s(2) show "\<forall>e\<in>set (ar_purchases r).
         0 < ap_all_time_high e
         \<and> ap_price e \<le> rnd (ap_all_time_high e * rnd (1 - rnd (dip_percentage / 100)))
         \<and> ap_dip_percentage e
             = rnd (rnd (rnd (ap_all_time_high e - ap_price e) / ap_all_time_high e) * 100)"
    by (simp only: ath_recorded_def)
next
  assume "backtest_ath_dip_strategy data dip_percentage daily_budget = Inr r'"
  then obtain s where s: "for_each (ath_step dip_percentage daily_budget) data ath_init = Inr s"
    "ar_purchases r' = as_purchases s"
    by (rule backtest_ath_Inr) blast
  have "ath_dipped dip_percentage ath_init" by (simp add: ath_dipped_def ath_init_def)
  from for_each_invariant [where P = "\<lambda>_. ath_dipped dip_percentage", OF this _ s(1)]
  have "ath_dipped dip_percentage s" by (blast intro: ath_step_dipped)
  with s(2) show "\<forall>e\<in>set (ar_purchases r').
         0 < ap_all_time_high e
         \<and> ap_price e \<le> (1 - dip_percentage / 100) * ap_all_time_high e
         \<and> ap_dip_percentage e = (ap_all_time_high e - ap_price e) / ap_all_time_high e * 100
         \<and> dip_percentage \<le> ap_dip_percentage e"
    by (simp only: ath_dipped_def)
qed

theorem dip_events_as_computed_witness:
  "backtest_ath_dip_strategy_rounded round_double [mk_bar 1 100 71] 29 1
     = Inr boundary_double_result
   \<and> ar_purchases boundary_double_result ! 0 \<in> set (ar_purchases boundary_double_result)
   \<and> 0 < ap_all_time_high (ar_purchases boundary_double_result ! 0)
   \<and> ap_price (ar_purchases boundary_double_result ! 0)
       \<le> round_double (ap_all_time_high (ar_purchases boundary_double_result ! 0)
            * round_double (1 - round_double (29 / 100)))
   \<and> ap_dip_percentage (ar_purchases boundary_double_result ! 0)
       = round_double (round_double (round_double
           (ap_all_time_high (ar_purchases boundary_double_result ! 0)
            - ap_price (ar_purchases boundary_double_result ! 0))
           / ap_all_time_high (ar_purchases boundary_double_result ! 0)) * 100)
   \<and> backtest_ath_dip_strategy sample_bars 20 1 = Inr sample_ath_result
   \<and> ar_purchases sample_ath_result ! 0 \<in> set (ar_purchases sample_ath_result)
   \<and> 0 < ap_all_time_high (ar_purchases sample_ath_result ! 0)
   \<and> ap_price (ar_purchases sample_ath_result ! 0)
       \<le> (1 - 20 / 100) * ap_all_time_high (ar_purchases sample_ath_result ! 0)
   \<and> ap_dip_percentage (ar_purchases sample_ath_result ! 0)
       = (ap_all_time_high (ar_purchases sample_ath_result ! 0)
          - ap_price (ar_purchases sample_ath_result ! 0))
         / ap_all_time_high (ar_purchases sample_ath_result ! 0) * 100
   \<and> 20 \<le> ap_dip_percentage (ar_purchases sample_ath_result ! 0)"
proof -
  have m1: "ar_purchases boundary_double_result ! 0 \<in> set (ar_purchases boundary_double_result)"
    by (simp add: boundary_double_result_def)
  have m2: "ar_purchases sample_ath_result ! 0 \<in> set (ar_purchases sample_ath_result)"
    by (simp add: sample_ath_result_def sample_ath_state_def)
  note t = dip_events_as_computed [where rnd = round_double and data = "[mk_bar 1 100 71]"
      and dip_percentage = 29 and daily_budget = 1 and r = boundary_double_result]
  note u = dip_events_as_computed [where data = sample_bars
      and dip_percentage = 20 and daily_budget = 1 and r' = sample_ath_result]
  from t [THEN conjunct1, rule_format, OF boundary_double_run m1]
    u [THEN conjunct2, rule_format, OF sample_ath_run m2]
    boundary_double_run sample_ath_run m1 m2
  show ?thesis by blast
qed

text \<open>
  C10 (as the spec states it) fails in double arithmetic: on one bar with high 100 and
  close 71, at a dip of 29, the computed threshold is 71.0, the strategy buys, and the
  event records a dip percentage of 28.999999999999996, below the configured 29.
\<close>

theorem dip_percentage_counterexample:
  "backtest_ath_dip_strategy_rounded round_double [mk_bar 1 100 71] 29 1 =
     Inr \<lparr>ar_dip_percentage = 29, ar_daily_budget = 1, ar_total_invested = 1,
          ar_final_value = 1, ar_total_return = 0, ar_return_percentage = 0,
          ar_total_bitcoin = 8119165525400331 / 576460752303423488,
          ar_average_purchase_price = 71, ar_final_bitcoin_price = 71,
          ar_final_ath = 100, ar_accumulated_cash = 0,
          ar_number_of_purchases = 1, ar_number_of_days = 1,
          ar_purchases =
            [\<lparr>ap_date = 1, ap_price = 71, ap_amount_invested = 1,
              ap_bitcoin_purchased = 8119165525400331 / 576460752303423488,
              ap_all_time_high = 100,
              ap_dip_percentage = 8162774324609023 / 281474976710656,
              ap_total_bitcoin = 8119165525400331 / 576460752303423488,
              ap_total_invested = 1, ap_purchase_number = 1\<rparr>],
          ar_portfolio_values =
            [\<lparr>av_date = 1, av_price = 71, av_ath = 100,
              av_portfolio_value = 1, av_total_invested = 1,
              av_accumulated_cash = 0, av_unrealized_return = 0\<rparr>]\<rparr>
   \<and> (8162774324609023 / 281474976710656 :: real) < 29"
  using boundary_double_run by (simp add: boundary_double_result_def)


end
